theory Spec2Isabelle
  imports Complex_Main "HOL-Library.AList"
begin

section \<open>The furniture catalog and the shopping cart\<close>

text \<open>
  A shallow embedding of \<^verbatim>\<open>ikea_furniture.py\<close> (the model classes and the methods of
  \<^verbatim>\<open>ShoppingCart\<close>) and of \<^verbatim>\<open>main.py\<close> (the request handlers).

  Modelling decisions:
  \<^item> a Python \<^verbatim>\<open>float\<close> is a \<open>real\<close>: rounding is not modelled; a Python \<^verbatim>\<open>int\<close> is an
    \<open>int\<close>, unbounded, and the store takes only the integers of 64 signed bits: a
    larger one given to the store as a key, a column value, an offset or a limit raises
    \<^verbatim>\<open>OverflowError\<close>;
  \<^item> a \<^verbatim>\<open>date\<close> is represented by its ISO-8601 text, so \<^verbatim>\<open>isoformat()\<close> is the identity;
  \<^item> the database is a record of five tables; a table is the list of its rows in the
    order a scan returns them (ascending primary key);
  \<^item> every handler runs in one session that commits at its end, so a handler is a function
    from the store to an error or to the new store and the response;
  \<^item> \<^verbatim>\<open>HTTPException(status_code=n, detail=...)\<close> is \<open>HTTPException n\<close>: the detail text is
    not modelled.
\<close>

subsection \<open>Values, errors\<close>

type_synonym date = string

datatype error =
    HTTPException nat
  | IntegrityError
  | OverflowError
  | OperationalError
  | ValueError
  | TypeError

text \<open>What \<^verbatim>\<open>json.dumps\<close> writes for the values of a furniture dictionary.\<close>

datatype json = JNull | JBool bool | JInt int | JFloat real | JStr string

text \<open>
  A Python \<^verbatim>\<open>dict\<close> with string keys, in insertion order. The column
  \<^verbatim>\<open>CartItem.furniture_data\<close> holds the JSON text of such a dictionary; the text is
  represented by the dictionary it encodes (\<^verbatim>\<open>json.loads(json.dumps(d)) == d\<close> for
  these dictionaries).
\<close>

type_synonym pydict = "(string \<times> json) list"

definition dict_update :: "pydict \<Rightarrow> pydict \<Rightarrow> pydict" where
  "dict_update d e = fold (\<lambda>(k, v) acc. AList.update k v acc) e d"

definition dict_get :: "pydict \<Rightarrow> string \<Rightarrow> json \<Rightarrow> json" where
  "dict_get d k dflt = (case map_of d k of None \<Rightarrow> dflt | Some v \<Rightarrow> v)"

text \<open>
  \<^verbatim>\<open>value * quantity\<close> for a value read from a dictionary and an \<^verbatim>\<open>int\<close>: numbers multiply
  (\<^verbatim>\<open>bool\<close> is a subclass of \<^verbatim>\<open>int\<close>), a string is repeated, \<^verbatim>\<open>None\<close> raises.
\<close>

fun py_mul :: "json \<Rightarrow> int \<Rightarrow> error + json" where
  "py_mul (JFloat p) q = Inr (JFloat (p * real_of_int q))"
| "py_mul (JInt n) q = Inr (JInt (n * q))"
| "py_mul (JBool b) q = Inr (JInt ((if b then 1 else 0) * q))"
| "py_mul (JStr s) q = Inr (JStr (concat (replicate (nat q) s)))"
| "py_mul JNull q = Inl TypeError"

text \<open>\<^verbatim>\<open>acc + value\<close> where \<open>acc\<close> is the running total of \<^verbatim>\<open>sum\<close>, a number.\<close>

fun py_add :: "json \<Rightarrow> json \<Rightarrow> error + json" where
  "py_add (JInt a) (JInt b) = Inr (JInt (a + b))"
| "py_add (JInt a) (JFloat b) = Inr (JFloat (real_of_int a + b))"
| "py_add (JFloat a) (JInt b) = Inr (JFloat (a + real_of_int b))"
| "py_add (JFloat a) (JFloat b) = Inr (JFloat (a + b))"
| "py_add (JInt a) (JBool b) = Inr (JInt (a + (if b then 1 else 0)))"
| "py_add (JFloat a) (JBool b) = Inr (JFloat (a + (if b then 1 else 0)))"
| "py_add _ _ = Inl TypeError"

text \<open>
  \<^verbatim>\<open>sum(generator)\<close>: the total starts at the integer 0 and the terms are added from the
  left; a term that raises, or an addition that raises, ends the sum.
\<close>

fun py_sum_from :: "json \<Rightarrow> (error + json) list \<Rightarrow> error + json" where
  "py_sum_from acc [] = Inr acc"
| "py_sum_from acc (Inl e # ts) = Inl e"
| "py_sum_from acc (Inr v # ts) =
     (case py_add acc v of Inl e \<Rightarrow> Inl e | Inr acc' \<Rightarrow> py_sum_from acc' ts)"

definition py_sum :: "(error + json) list \<Rightarrow> error + json" where
  "py_sum ts = py_sum_from (JInt 0) ts"

subsection \<open>The model classes\<close>

record IkeaFurniture =
  name :: string
  price :: real
  color :: string
  material :: string
  weight_kg :: real
  date_added :: date
  in_stock :: bool

record IkeaSofa = IkeaFurniture +
  sofa_id :: "int option"
  sofa_seats :: int
  has_sleeper :: bool
  fabric_type :: string

record IkeaDiningTable = IkeaFurniture +
  table_id :: "int option"
  table_seats :: int
  shape :: string
  extendable :: bool

record IkeaMatress = IkeaFurniture +
  matress_id :: "int option"
  matress_size :: string
  firmness :: string
  thickness_cm :: real

record CartItem =
  item_id :: "int option"
  cart_id :: int
  furniture_type :: string
  furniture_id :: int
  quantity :: int
  furniture_data :: pydict

record ShoppingCart =
  cart_pk :: "int option"
  created_date :: date
  customer_name :: string
  customer_email :: "string option"

text \<open>
  The constructors, with the defaults of the class bodies. A keyword argument that has a
  default is an \<open>option\<close>: \<open>None\<close> when the caller leaves it out.

  \<^verbatim>\<open>date_added: date = date.today()\<close> is evaluated once, when the class body of
  \<^verbatim>\<open>IkeaFurniture\<close> runs (at import): \<open>import_day\<close> is that day.
  \<^verbatim>\<open>created_date: date = Field(default_factory=date.today)\<close> is evaluated at every
  construction: \<open>today\<close> is the day of the call.
\<close>

definition IkeaSofa_init ::
  "date \<Rightarrow> int option \<Rightarrow> string \<Rightarrow> real \<Rightarrow> string \<Rightarrow> string \<Rightarrow> real \<Rightarrow> date option \<Rightarrow> bool option
    \<Rightarrow> int \<Rightarrow> bool option \<Rightarrow> string \<Rightarrow> IkeaSofa" where
  "IkeaSofa_init import_day i n p c m w d st se sl fa =
     \<lparr>name = n, price = p, color = c, material = m, weight_kg = w,
      date_added = (case d of None \<Rightarrow> import_day | Some x \<Rightarrow> x),
      in_stock = (case st of None \<Rightarrow> True | Some b \<Rightarrow> b),
      sofa_id = i, sofa_seats = se,
      has_sleeper = (case sl of None \<Rightarrow> False | Some b \<Rightarrow> b),
      fabric_type = fa\<rparr>"

definition IkeaDiningTable_init ::
  "date \<Rightarrow> int option \<Rightarrow> string \<Rightarrow> real \<Rightarrow> string \<Rightarrow> string \<Rightarrow> real \<Rightarrow> date option \<Rightarrow> bool option
    \<Rightarrow> int \<Rightarrow> string \<Rightarrow> bool option \<Rightarrow> IkeaDiningTable" where
  "IkeaDiningTable_init import_day i n p c m w d st se sh ex =
     \<lparr>name = n, price = p, color = c, material = m, weight_kg = w,
      date_added = (case d of None \<Rightarrow> import_day | Some x \<Rightarrow> x),
      in_stock = (case st of None \<Rightarrow> True | Some b \<Rightarrow> b),
      table_id = i, table_seats = se, shape = sh,
      extendable = (case ex of None \<Rightarrow> False | Some b \<Rightarrow> b)\<rparr>"

definition IkeaMatress_init ::
  "date \<Rightarrow> int option \<Rightarrow> string \<Rightarrow> real \<Rightarrow> string \<Rightarrow> string \<Rightarrow> real \<Rightarrow> date option \<Rightarrow> bool option
    \<Rightarrow> string \<Rightarrow> string \<Rightarrow> real \<Rightarrow> IkeaMatress" where
  "IkeaMatress_init import_day i n p c m w d st sz fi th =
     \<lparr>name = n, price = p, color = c, material = m, weight_kg = w,
      date_added = (case d of None \<Rightarrow> import_day | Some x \<Rightarrow> x),
      in_stock = (case st of None \<Rightarrow> True | Some b \<Rightarrow> b),
      matress_id = i, matress_size = sz, firmness = fi, thickness_cm = th\<rparr>"

definition ShoppingCart_init ::
  "date \<Rightarrow> int option \<Rightarrow> date option \<Rightarrow> string \<Rightarrow> string option \<Rightarrow> ShoppingCart" where
  "ShoppingCart_init today i cd cn ce =
     \<lparr>cart_pk = i,
      created_date = (case cd of None \<Rightarrow> today | Some x \<Rightarrow> x),
      customer_name = cn, customer_email = ce\<rparr>"

subsection \<open>The store and the session\<close>

record store =
  sofas :: "IkeaSofa list"
  dining_tables :: "IkeaDiningTable list"
  matresses :: "IkeaMatress list"
  carts :: "ShoppingCart list"
  cart_items :: "CartItem list"

definition empty_store :: store where
  "empty_store = \<lparr>sofas = [], dining_tables = [], matresses = [], carts = [], cart_items = []\<rparr>"

text \<open>
  The integers the store can hold and take as parameters. A Python \<^verbatim>\<open>int\<close> outside this
  range raises \<^verbatim>\<open>OverflowError\<close> when it is bound to a statement.
\<close>

definition in_int64 :: "int \<Rightarrow> bool" where
  "in_int64 k \<longleftrightarrow> - (2 ^ 63) \<le> k \<and> k < 2 ^ 63"

text \<open>The row a table holds under the key \<open>k\<close>.\<close>

definition find_row :: "('r \<Rightarrow> int option) \<Rightarrow> 'r list \<Rightarrow> int \<Rightarrow> 'r option" where
  "find_row pk rows k = find (\<lambda>r. pk r = Some k) rows"

text \<open>
  \<^verbatim>\<open>session.get(Model, k)\<close> in a new session: a select by primary key, which gives the
  row or \<^verbatim>\<open>None\<close>, and raises for a key the store cannot take.
\<close>

definition session_get :: "('r \<Rightarrow> int option) \<Rightarrow> 'r list \<Rightarrow> int \<Rightarrow> error + 'r option" where
  "session_get pk rows k = (if in_int64 k then Inr (find_row pk rows k) else Inl OverflowError)"

text \<open>
  The key the store gives a row inserted without one: one more than the largest key in
  the table, 1 for an empty table.
\<close>

definition next_rowid :: "('r \<Rightarrow> int option) \<Rightarrow> 'r list \<Rightarrow> int" where
  "next_rowid pk rows =
     (case List.map_filter pk rows of [] \<Rightarrow> 1 | k # ks \<Rightarrow> Max (set (k # ks)) + 1)"

fun insert_row :: "('r \<Rightarrow> int option) \<Rightarrow> int \<Rightarrow> 'r \<Rightarrow> 'r list \<Rightarrow> 'r list" where
  "insert_row pk k r [] = [r]"
| "insert_row pk k r (x # xs) =
     (case pk x of
        None \<Rightarrow> x # insert_row pk k r xs
      | Some j \<Rightarrow> if j < k then x # insert_row pk k r xs else r # x # xs)"

text \<open>
  \<^verbatim>\<open>session.add(obj); session.commit(); session.refresh(obj)\<close> for a new object.
  \<open>int_cols\<close> gives the values of the integer columns of the object other than the
  key. An integer the store cannot take raises \<^verbatim>\<open>OverflowError\<close> and nothing is stored.
  An object without a key gets the next one, an object with a key keeps it, and the
  insert fails when the key is taken.

  When the largest key of the table is already \<open>2 ^ 63 - 1\<close> the store tries keys at
  random and gives up with \<^verbatim>\<open>SQLITE_FULL\<close> (\<^verbatim>\<open>OperationalError\<close>) when it finds none free.
  The random choice is not modelled: the model answers with that failure, and every
  statement below that promises a successful insert assumes \<open>in_int64 (next_rowid pk rows)\<close>.
\<close>

definition session_add ::
  "('r \<Rightarrow> int option) \<Rightarrow> (int \<Rightarrow> 'r \<Rightarrow> 'r) \<Rightarrow> ('r \<Rightarrow> int list) \<Rightarrow> 'r list \<Rightarrow> 'r
    \<Rightarrow> error + ('r list \<times> 'r)" where
  "session_add pk set_pk int_cols rows obj =
     (if \<not> list_all in_int64 (int_cols obj) then Inl OverflowError
      else
        (case pk obj of
           None \<Rightarrow>
             (let k = next_rowid pk rows; obj' = set_pk k obj
              in if in_int64 k then Inr (insert_row pk k obj' rows, obj')
                 else Inl OperationalError)
         | Some k \<Rightarrow>
             (if \<not> in_int64 k then Inl OverflowError
              else if find_row pk rows k \<noteq> None then Inl IntegrityError
              else Inr (insert_row pk k obj rows, obj))))"

text \<open>
  \<^verbatim>\<open>session.delete(obj)\<close>, committed: the store deletes by primary key, the key of \<open>obj\<close>.
\<close>

definition session_delete :: "('r \<Rightarrow> int option) \<Rightarrow> 'r list \<Rightarrow> 'r \<Rightarrow> 'r list" where
  "session_delete pk rows obj = filter (\<lambda>r. pk r \<noteq> pk obj) rows"

text \<open>
  \<^verbatim>\<open>session.add(obj); session.commit()\<close> for an object loaded as the row with key \<open>k\<close>
  and changed since: the row is rewritten. An integer the store cannot take raises
  \<^verbatim>\<open>OverflowError\<close>; a key set to \<^verbatim>\<open>None\<close>, or to the key of another row, fails. Nothing
  is stored then.
\<close>

definition session_update ::
  "('r \<Rightarrow> int option) \<Rightarrow> ('r \<Rightarrow> int list) \<Rightarrow> 'r list \<Rightarrow> int \<Rightarrow> 'r \<Rightarrow> error + 'r list" where
  "session_update pk int_cols rows k obj =
     (if \<not> list_all in_int64 (int_cols obj) then Inl OverflowError
      else
        (case pk obj of
           None \<Rightarrow> Inl IntegrityError
         | Some k' \<Rightarrow>
             (if k' = k then Inr (map (\<lambda>r. if pk r = Some k then obj else r) rows)
              else if \<not> in_int64 k' then Inl OverflowError
              else if find_row pk rows k' \<noteq> None then Inl IntegrityError
              else Inr (insert_row pk k' obj (filter (\<lambda>r. pk r \<noteq> Some k) rows)))))"

text \<open>
  \<^verbatim>\<open>query.offset(skip).limit(limit)\<close>: a negative offset skips nothing and a negative
  limit does not bound the result.
\<close>

definition paginate :: "int \<Rightarrow> int \<Rightarrow> 'r list \<Rightarrow> 'r list" where
  "paginate skip limit rows =
     (let rest = drop (nat skip) rows
      in if limit < 0 then rest else take (nat limit) rest)"

text \<open>
  \<^verbatim>\<open>session.exec(query.offset(skip).limit(limit)).all()\<close>: offset and limit are bound to
  the statement as integers.
\<close>

definition session_exec_page :: "int \<Rightarrow> int \<Rightarrow> 'r list \<Rightarrow> error + 'r list" where
  "session_exec_page skip limit rows =
     (if in_int64 skip \<and> in_int64 limit then Inr (paginate skip limit rows)
      else Inl OverflowError)"

text \<open>The integer columns of each table, the key apart.\<close>

definition sofa_int_cols :: "IkeaSofa \<Rightarrow> int list" where
  "sofa_int_cols r = [sofa_seats r]"

definition table_int_cols :: "IkeaDiningTable \<Rightarrow> int list" where
  "table_int_cols r = [table_seats r]"

definition matress_int_cols :: "IkeaMatress \<Rightarrow> int list" where
  "matress_int_cols r = []"

definition cart_int_cols :: "ShoppingCart \<Rightarrow> int list" where
  "cart_int_cols r = []"

definition item_int_cols :: "CartItem \<Rightarrow> int list" where
  "item_int_cols r = [cart_id r, furniture_id r, quantity r]"

subsection \<open>Partial updates: the fields a request sets\<close>

text \<open>
  \<^verbatim>\<open>sofa_data.dict(exclude_unset=True)\<close> is the dictionary of the fields the request set,
  each with its value. It is modelled as the list of its entries, each entry a field
  tagged with its value; \<open>attr_key\<close> gives the entry's key. A dictionary has every key
  at most once.
\<close>

datatype furniture_attr =
    Name string
  | Price real
  | Color string
  | Material string
  | Weight_kg real
  | Date_added date
  | In_stock bool

datatype sofa_attr =
    Sofa_common furniture_attr
  | Sofa_id "int option"
  | Sofa_seats int
  | Has_sleeper bool
  | Fabric_type string

datatype table_attr =
    Table_common furniture_attr
  | Table_id "int option"
  | Table_seats int
  | Shape string
  | Extendable bool

datatype matress_attr =
    Matress_common furniture_attr
  | Matress_id "int option"
  | Matress_size string
  | Firmness string
  | Thickness_cm real

fun furniture_attr_key :: "furniture_attr \<Rightarrow> string" where
  "furniture_attr_key (Name _) = ''name''"
| "furniture_attr_key (Price _) = ''price''"
| "furniture_attr_key (Color _) = ''color''"
| "furniture_attr_key (Material _) = ''material''"
| "furniture_attr_key (Weight_kg _) = ''weight_kg''"
| "furniture_attr_key (Date_added _) = ''date_added''"
| "furniture_attr_key (In_stock _) = ''in_stock''"

fun sofa_attr_key :: "sofa_attr \<Rightarrow> string" where
  "sofa_attr_key (Sofa_common a) = furniture_attr_key a"
| "sofa_attr_key (Sofa_id _) = ''id''"
| "sofa_attr_key (Sofa_seats _) = ''seats''"
| "sofa_attr_key (Has_sleeper _) = ''has_sleeper''"
| "sofa_attr_key (Fabric_type _) = ''fabric_type''"

fun table_attr_key :: "table_attr \<Rightarrow> string" where
  "table_attr_key (Table_common a) = furniture_attr_key a"
| "table_attr_key (Table_id _) = ''id''"
| "table_attr_key (Table_seats _) = ''seats''"
| "table_attr_key (Shape _) = ''shape''"
| "table_attr_key (Extendable _) = ''extendable''"

fun matress_attr_key :: "matress_attr \<Rightarrow> string" where
  "matress_attr_key (Matress_common a) = furniture_attr_key a"
| "matress_attr_key (Matress_id _) = ''id''"
| "matress_attr_key (Matress_size _) = ''size''"
| "matress_attr_key (Firmness _) = ''firmness''"
| "matress_attr_key (Thickness_cm _) = ''thickness_cm''"

text \<open>\<^verbatim>\<open>setattr(obj, key, value)\<close> for one entry.\<close>

fun setattr_furniture ::
  "furniture_attr \<Rightarrow> 'a IkeaFurniture_scheme \<Rightarrow> 'a IkeaFurniture_scheme" where
  "setattr_furniture (Name v) obj = obj\<lparr>name := v\<rparr>"
| "setattr_furniture (Price v) obj = obj\<lparr>price := v\<rparr>"
| "setattr_furniture (Color v) obj = obj\<lparr>color := v\<rparr>"
| "setattr_furniture (Material v) obj = obj\<lparr>material := v\<rparr>"
| "setattr_furniture (Weight_kg v) obj = obj\<lparr>weight_kg := v\<rparr>"
| "setattr_furniture (Date_added v) obj = obj\<lparr>date_added := v\<rparr>"
| "setattr_furniture (In_stock v) obj = obj\<lparr>in_stock := v\<rparr>"

fun setattr_sofa :: "sofa_attr \<Rightarrow> IkeaSofa \<Rightarrow> IkeaSofa" where
  "setattr_sofa (Sofa_common a) obj = setattr_furniture a obj"
| "setattr_sofa (Sofa_id v) obj = obj\<lparr>sofa_id := v\<rparr>"
| "setattr_sofa (Sofa_seats v) obj = obj\<lparr>sofa_seats := v\<rparr>"
| "setattr_sofa (Has_sleeper v) obj = obj\<lparr>has_sleeper := v\<rparr>"
| "setattr_sofa (Fabric_type v) obj = obj\<lparr>fabric_type := v\<rparr>"

fun setattr_table :: "table_attr \<Rightarrow> IkeaDiningTable \<Rightarrow> IkeaDiningTable" where
  "setattr_table (Table_common a) obj = setattr_furniture a obj"
| "setattr_table (Table_id v) obj = obj\<lparr>table_id := v\<rparr>"
| "setattr_table (Table_seats v) obj = obj\<lparr>table_seats := v\<rparr>"
| "setattr_table (Shape v) obj = obj\<lparr>shape := v\<rparr>"
| "setattr_table (Extendable v) obj = obj\<lparr>extendable := v\<rparr>"

fun setattr_matress :: "matress_attr \<Rightarrow> IkeaMatress \<Rightarrow> IkeaMatress" where
  "setattr_matress (Matress_common a) obj = setattr_furniture a obj"
| "setattr_matress (Matress_id v) obj = obj\<lparr>matress_id := v\<rparr>"
| "setattr_matress (Matress_size v) obj = obj\<lparr>matress_size := v\<rparr>"
| "setattr_matress (Firmness v) obj = obj\<lparr>firmness := v\<rparr>"
| "setattr_matress (Thickness_cm v) obj = obj\<lparr>thickness_cm := v\<rparr>"

text \<open>
  \<^verbatim>\<open>getattr(obj, key)\<close>, the value tagged with its field; \<open>None\<close> for a key that is not a
  field of the class.
\<close>

definition getattr_furniture :: "'a IkeaFurniture_scheme \<Rightarrow> string \<Rightarrow> furniture_attr option" where
  "getattr_furniture obj k =
     (if k = ''name'' then Some (Name (name obj))
      else if k = ''price'' then Some (Price (price obj))
      else if k = ''color'' then Some (Color (color obj))
      else if k = ''material'' then Some (Material (material obj))
      else if k = ''weight_kg'' then Some (Weight_kg (weight_kg obj))
      else if k = ''date_added'' then Some (Date_added (date_added obj))
      else if k = ''in_stock'' then Some (In_stock (in_stock obj))
      else None)"

definition getattr_sofa :: "IkeaSofa \<Rightarrow> string \<Rightarrow> sofa_attr option" where
  "getattr_sofa obj k =
     (if k = ''id'' then Some (Sofa_id (sofa_id obj))
      else if k = ''seats'' then Some (Sofa_seats (sofa_seats obj))
      else if k = ''has_sleeper'' then Some (Has_sleeper (has_sleeper obj))
      else if k = ''fabric_type'' then Some (Fabric_type (fabric_type obj))
      else map_option Sofa_common (getattr_furniture obj k))"

definition getattr_table :: "IkeaDiningTable \<Rightarrow> string \<Rightarrow> table_attr option" where
  "getattr_table obj k =
     (if k = ''id'' then Some (Table_id (table_id obj))
      else if k = ''seats'' then Some (Table_seats (table_seats obj))
      else if k = ''shape'' then Some (Shape (shape obj))
      else if k = ''extendable'' then Some (Extendable (extendable obj))
      else map_option Table_common (getattr_furniture obj k))"

definition getattr_matress :: "IkeaMatress \<Rightarrow> string \<Rightarrow> matress_attr option" where
  "getattr_matress obj k =
     (if k = ''id'' then Some (Matress_id (matress_id obj))
      else if k = ''size'' then Some (Matress_size (matress_size obj))
      else if k = ''firmness'' then Some (Firmness (firmness obj))
      else if k = ''thickness_cm'' then Some (Thickness_cm (thickness_cm obj))
      else map_option Matress_common (getattr_furniture obj k))"

subsection \<open>Sofa handlers\<close>

definition create_sofa :: "store \<Rightarrow> IkeaSofa \<Rightarrow> error + (store \<times> IkeaSofa)" where
  "create_sofa s sofa =
     (case session_add sofa_id (\<lambda>k r. r\<lparr>sofa_id := Some k\<rparr>) sofa_int_cols (sofas s) sofa of
        Inl e \<Rightarrow> Inl e
      | Inr (rows, sofa') \<Rightarrow> Inr (s\<lparr>sofas := rows\<rparr>, sofa'))"

text \<open>
  \<^verbatim>\<open>if material:\<close> holds for a string that is given and not empty;
  \<^verbatim>\<open>if min_price is not None:\<close> holds for every number that is given.
\<close>

definition read_sofas ::
  "store \<Rightarrow> int \<Rightarrow> int \<Rightarrow> string option \<Rightarrow> real option \<Rightarrow> real option \<Rightarrow> bool option
    \<Rightarrow> error + IkeaSofa list" where
  "read_sofas s skip limit material_f min_price max_price has_sleeper_f =
     (let query = sofas s;
          query = (case material_f of
                     None \<Rightarrow> query
                   | Some m \<Rightarrow> if m \<noteq> [] then filter (\<lambda>r. material r = m) query else query);
          query = (case min_price of
                     None \<Rightarrow> query
                   | Some lo \<Rightarrow> filter (\<lambda>r. price r \<ge> lo) query);
          query = (case max_price of
                     None \<Rightarrow> query
                   | Some hi \<Rightarrow> filter (\<lambda>r. price r \<le> hi) query);
          query = (case has_sleeper_f of
                     None \<Rightarrow> query
                   | Some b \<Rightarrow> filter (\<lambda>r. has_sleeper r = b) query)
      in session_exec_page skip limit query)"

definition read_sofa :: "store \<Rightarrow> int \<Rightarrow> error + IkeaSofa" where
  "read_sofa s sid =
     (case session_get sofa_id (sofas s) sid of
        Inl e \<Rightarrow> Inl e
      | Inr None \<Rightarrow> Inl (HTTPException 404)
      | Inr (Some sofa) \<Rightarrow> Inr sofa)"

definition update_sofa :: "store \<Rightarrow> int \<Rightarrow> sofa_attr list \<Rightarrow> error + (store \<times> IkeaSofa)" where
  "update_sofa s sid sofa_data_dict =
     (case session_get sofa_id (sofas s) sid of
        Inl e \<Rightarrow> Inl e
      | Inr None \<Rightarrow> Inl (HTTPException 404)
      | Inr (Some db_sofa) \<Rightarrow>
          (let db_sofa' = fold setattr_sofa sofa_data_dict db_sofa
           in case session_update sofa_id sofa_int_cols (sofas s) sid db_sofa' of
                Inl e \<Rightarrow> Inl e
              | Inr rows \<Rightarrow> Inr (s\<lparr>sofas := rows\<rparr>, db_sofa')))"

definition delete_sofa :: "store \<Rightarrow> int \<Rightarrow> error + store" where
  "delete_sofa s sid =
     (case session_get sofa_id (sofas s) sid of
        Inl e \<Rightarrow> Inl e
      | Inr None \<Rightarrow> Inl (HTTPException 404)
      | Inr (Some sofa) \<Rightarrow> Inr (s\<lparr>sofas := session_delete sofa_id (sofas s) sofa\<rparr>))"

subsection \<open>Dining table handlers\<close>

definition create_dining_table ::
  "store \<Rightarrow> IkeaDiningTable \<Rightarrow> error + (store \<times> IkeaDiningTable)" where
  "create_dining_table s table =
     (case session_add table_id (\<lambda>k r. r\<lparr>table_id := Some k\<rparr>) table_int_cols (dining_tables s) table of
        Inl e \<Rightarrow> Inl e
      | Inr (rows, table') \<Rightarrow> Inr (s\<lparr>dining_tables := rows\<rparr>, table'))"

definition read_dining_tables ::
  "store \<Rightarrow> int \<Rightarrow> int \<Rightarrow> string option \<Rightarrow> real option \<Rightarrow> real option \<Rightarrow> string option
    \<Rightarrow> bool option \<Rightarrow> error + IkeaDiningTable list" where
  "read_dining_tables s skip limit material_f min_price max_price shape_f extendable_f =
     (let query = dining_tables s;
          query = (case material_f of
                     None \<Rightarrow> query
                   | Some m \<Rightarrow> if m \<noteq> [] then filter (\<lambda>r. material r = m) query else query);
          query = (case min_price of
                     None \<Rightarrow> query
                   | Some lo \<Rightarrow> filter (\<lambda>r. price r \<ge> lo) query);
          query = (case max_price of
                     None \<Rightarrow> query
                   | Some hi \<Rightarrow> filter (\<lambda>r. price r \<le> hi) query);
          query = (case shape_f of
                     None \<Rightarrow> query
                   | Some sh \<Rightarrow> if sh \<noteq> [] then filter (\<lambda>r. shape r = sh) query else query);
          query = (case extendable_f of
                     None \<Rightarrow> query
                   | Some b \<Rightarrow> filter (\<lambda>r. extendable r = b) query)
      in session_exec_page skip limit query)"

definition read_dining_table :: "store \<Rightarrow> int \<Rightarrow> error + IkeaDiningTable" where
  "read_dining_table s tid =
     (case session_get table_id (dining_tables s) tid of
        Inl e \<Rightarrow> Inl e
      | Inr None \<Rightarrow> Inl (HTTPException 404)
      | Inr (Some table) \<Rightarrow> Inr table)"

definition update_dining_table ::
  "store \<Rightarrow> int \<Rightarrow> table_attr list \<Rightarrow> error + (store \<times> IkeaDiningTable)" where
  "update_dining_table s tid table_data_dict =
     (case session_get table_id (dining_tables s) tid of
        Inl e \<Rightarrow> Inl e
      | Inr None \<Rightarrow> Inl (HTTPException 404)
      | Inr (Some db_table) \<Rightarrow>
          (let db_table' = fold setattr_table table_data_dict db_table
           in case session_update table_id table_int_cols (dining_tables s) tid db_table' of
                Inl e \<Rightarrow> Inl e
              | Inr rows \<Rightarrow> Inr (s\<lparr>dining_tables := rows\<rparr>, db_table')))"

definition delete_dining_table :: "store \<Rightarrow> int \<Rightarrow> error + store" where
  "delete_dining_table s tid =
     (case session_get table_id (dining_tables s) tid of
        Inl e \<Rightarrow> Inl e
      | Inr None \<Rightarrow> Inl (HTTPException 404)
      | Inr (Some table) \<Rightarrow>
          Inr (s\<lparr>dining_tables := session_delete table_id (dining_tables s) table\<rparr>))"

subsection \<open>Mattress handlers\<close>

definition create_mattress :: "store \<Rightarrow> IkeaMatress \<Rightarrow> error + (store \<times> IkeaMatress)" where
  "create_mattress s mattress =
     (case session_add matress_id (\<lambda>k r. r\<lparr>matress_id := Some k\<rparr>) matress_int_cols (matresses s) mattress of
        Inl e \<Rightarrow> Inl e
      | Inr (rows, mattress') \<Rightarrow> Inr (s\<lparr>matresses := rows\<rparr>, mattress'))"

definition read_mattresses ::
  "store \<Rightarrow> int \<Rightarrow> int \<Rightarrow> string option \<Rightarrow> real option \<Rightarrow> real option \<Rightarrow> string option
    \<Rightarrow> string option \<Rightarrow> error + IkeaMatress list" where
  "read_mattresses s skip limit material_f min_price max_price size_f firmness_f =
     (let query = matresses s;
          query = (case material_f of
                     None \<Rightarrow> query
                   | Some m \<Rightarrow> if m \<noteq> [] then filter (\<lambda>r. material r = m) query else query);
          query = (case min_price of
                     None \<Rightarrow> query
                   | Some lo \<Rightarrow> filter (\<lambda>r. price r \<ge> lo) query);
          query = (case max_price of
                     None \<Rightarrow> query
                   | Some hi \<Rightarrow> filter (\<lambda>r. price r \<le> hi) query);
          query = (case size_f of
                     None \<Rightarrow> query
                   | Some sz \<Rightarrow>
                       if sz \<noteq> [] then filter (\<lambda>r. matress_size r = sz) query else query);
          query = (case firmness_f of
                     None \<Rightarrow> query
                   | Some fi \<Rightarrow> if fi \<noteq> [] then filter (\<lambda>r. firmness r = fi) query else query)
      in session_exec_page skip limit query)"

definition read_mattress :: "store \<Rightarrow> int \<Rightarrow> error + IkeaMatress" where
  "read_mattress s mid =
     (case session_get matress_id (matresses s) mid of
        Inl e \<Rightarrow> Inl e
      | Inr None \<Rightarrow> Inl (HTTPException 404)
      | Inr (Some mattress) \<Rightarrow> Inr mattress)"

definition update_mattress ::
  "store \<Rightarrow> int \<Rightarrow> matress_attr list \<Rightarrow> error + (store \<times> IkeaMatress)" where
  "update_mattress s mid mattress_data_dict =
     (case session_get matress_id (matresses s) mid of
        Inl e \<Rightarrow> Inl e
      | Inr None \<Rightarrow> Inl (HTTPException 404)
      | Inr (Some db_mattress) \<Rightarrow>
          (let db_mattress' = fold setattr_matress mattress_data_dict db_mattress
           in case session_update matress_id matress_int_cols (matresses s) mid db_mattress' of
                Inl e \<Rightarrow> Inl e
              | Inr rows \<Rightarrow> Inr (s\<lparr>matresses := rows\<rparr>, db_mattress')))"

definition delete_mattress :: "store \<Rightarrow> int \<Rightarrow> error + store" where
  "delete_mattress s mid =
     (case session_get matress_id (matresses s) mid of
        Inl e \<Rightarrow> Inl e
      | Inr None \<Rightarrow> Inl (HTTPException 404)
      | Inr (Some mattress) \<Rightarrow> Inr (s\<lparr>matresses := session_delete matress_id (matresses s) mattress\<rparr>))"

subsection \<open>The shopping cart\<close>

text \<open>The argument \<^verbatim>\<open>furniture: Any\<close> of \<^verbatim>\<open>ShoppingCart.add_item\<close>, by its class.\<close>

datatype furniture =
    Sofa IkeaSofa
  | DiningTable IkeaDiningTable
  | Matress IkeaMatress
  | OtherObject

fun furniture_type_map_get :: "furniture \<Rightarrow> string option" where
  "furniture_type_map_get (Sofa _) = Some ''sofa''"
| "furniture_type_map_get (DiningTable _) = Some ''dining_table''"
| "furniture_type_map_get (Matress _) = Some ''matress''"
| "furniture_type_map_get OtherObject = None"

fun furniture_pk :: "furniture \<Rightarrow> int option" where
  "furniture_pk (Sofa f) = sofa_id f"
| "furniture_pk (DiningTable f) = table_id f"
| "furniture_pk (Matress f) = matress_id f"
| "furniture_pk OtherObject = None"

definition json_of_id :: "int option \<Rightarrow> json" where
  "json_of_id i = (case i of None \<Rightarrow> JNull | Some k \<Rightarrow> JInt k)"

definition common_fields :: "int option \<Rightarrow> 'a IkeaFurniture_scheme \<Rightarrow> pydict" where
  "common_fields i f =
     [(''id'', json_of_id i),
      (''name'', JStr (name f)),
      (''price'', JFloat (price f)),
      (''color'', JStr (color f)),
      (''material'', JStr (material f)),
      (''weight_kg'', JFloat (weight_kg f)),
      (''in_stock'', JBool (in_stock f)),
      (''date_added'', JStr (date_added f))]"

fun furniture_dict_common :: "furniture \<Rightarrow> pydict" where
  "furniture_dict_common (Sofa f) = common_fields (sofa_id f) f"
| "furniture_dict_common (DiningTable f) = common_fields (table_id f) f"
| "furniture_dict_common (Matress f) = common_fields (matress_id f) f"
| "furniture_dict_common OtherObject = []"

fun type_specific_fields :: "furniture \<Rightarrow> pydict" where
  "type_specific_fields (Sofa f) =
     [(''seats'', JInt (sofa_seats f)),
      (''has_sleeper'', JBool (has_sleeper f)),
      (''fabric_type'', JStr (fabric_type f))]"
| "type_specific_fields (DiningTable f) =
     [(''seats'', JInt (table_seats f)),
      (''shape'', JStr (shape f)),
      (''extendable'', JBool (extendable f))]"
| "type_specific_fields (Matress f) =
     [(''size'', JStr (matress_size f)),
      (''firmness'', JStr (firmness f)),
      (''thickness_cm'', JFloat (thickness_cm f))]"
| "type_specific_fields OtherObject = []"

text \<open>
  \<^verbatim>\<open>ShoppingCart.add_item\<close>. The class of the object decides the tag; an object of another
  class raises \<^verbatim>\<open>ValueError\<close>. \<^verbatim>\<open>session.refresh(furniture)\<close> reloads the row the object
  was read from in this session and leaves it as it is. The columns \<^verbatim>\<open>cart_id\<close> and
  \<^verbatim>\<open>furniture_id\<close> are not nullable: a cart or a furniture object without a key makes
  the insert fail.
\<close>

definition add_item :: "store \<Rightarrow> ShoppingCart \<Rightarrow> furniture \<Rightarrow> int \<Rightarrow> error + (store \<times> CartItem)" where
  "add_item s self furniture qty =
     (case furniture_type_map_get furniture of
        None \<Rightarrow> Inl ValueError
      | Some ftype \<Rightarrow>
          (let furniture_dict =
                 dict_update (furniture_dict_common furniture) (type_specific_fields furniture)
           in case (cart_pk self, furniture_pk furniture) of
                (Some cid, Some fid) \<Rightarrow>
                  (let cart_item =
                         \<lparr>item_id = None, cart_id = cid, furniture_type = ftype,
                          furniture_id = fid, quantity = qty, furniture_data = furniture_dict\<rparr>
                   in case session_add item_id (\<lambda>k r. r\<lparr>item_id := Some k\<rparr>) item_int_cols (cart_items s)
                             cart_item of
                        Inl e \<Rightarrow> Inl e
                      | Inr (rows, cart_item') \<Rightarrow> Inr (s\<lparr>cart_items := rows\<rparr>, cart_item'))
              | _ \<Rightarrow> Inl IntegrityError))"

definition get_items :: "store \<Rightarrow> ShoppingCart \<Rightarrow> CartItem list" where
  "get_items s self = filter (\<lambda>item. Some (cart_id item) = cart_pk self) (cart_items s)"

definition calculate_total_price :: "store \<Rightarrow> ShoppingCart \<Rightarrow> error + json" where
  "calculate_total_price s self =
     py_sum (map (\<lambda>item. py_mul (dict_get (furniture_data item) ''price'' (JFloat 0))
                                 (quantity item))
                 (get_items s self))"

definition calculate_total_quantity :: "store \<Rightarrow> ShoppingCart \<Rightarrow> int" where
  "calculate_total_quantity s self = foldl (+) 0 (map quantity (get_items s self))"

record item_detail =
  d_type :: string
  d_name :: json
  d_price :: json
  d_quantity :: int
  d_subtotal :: json

record cart_summary =
  customer_name_s :: string
  customer_email_s :: "string option"
  items_s :: "item_detail list"
  total_items_s :: int
  total_price_s :: json

fun item_details :: "CartItem list \<Rightarrow> error + item_detail list" where
  "item_details [] = Inr []"
| "item_details (item # items) =
     (let furniture_dict = furniture_data item
      in case py_mul (dict_get furniture_dict ''price'' (JFloat 0)) (quantity item) of
           Inl e \<Rightarrow> Inl e
         | Inr subtotal \<Rightarrow>
             (case item_details items of
                Inl e \<Rightarrow> Inl e
              | Inr ds \<Rightarrow>
                  Inr (\<lparr>d_type = furniture_type item,
                        d_name = dict_get furniture_dict ''name'' (JStr ''Unknown''),
                        d_price = dict_get furniture_dict ''price'' (JFloat 0),
                        d_quantity = quantity item,
                        d_subtotal = subtotal\<rparr> # ds)))"

definition get_cart_summary :: "store \<Rightarrow> ShoppingCart \<Rightarrow> error + cart_summary" where
  "get_cart_summary s self =
     (case item_details (get_items s self) of
        Inl e \<Rightarrow> Inl e
      | Inr ds \<Rightarrow>
          (case calculate_total_price s self of
             Inl e \<Rightarrow> Inl e
           | Inr total_price \<Rightarrow>
               Inr \<lparr>customer_name_s = customer_name self,
                    customer_email_s = customer_email self,
                    items_s = ds,
                    total_items_s = calculate_total_quantity s self,
                    total_price_s = total_price\<rparr>))"

subsection \<open>Cart handlers\<close>

definition create_cart :: "store \<Rightarrow> ShoppingCart \<Rightarrow> error + (store \<times> ShoppingCart)" where
  "create_cart s cart =
     (case session_add cart_pk (\<lambda>k r. r\<lparr>cart_pk := Some k\<rparr>) cart_int_cols (carts s) cart of
        Inl e \<Rightarrow> Inl e
      | Inr (rows, cart') \<Rightarrow> Inr (s\<lparr>carts := rows\<rparr>, cart'))"

definition read_cart :: "store \<Rightarrow> int \<Rightarrow> error + ShoppingCart" where
  "read_cart s cid =
     (case session_get cart_pk (carts s) cid of
        Inl e \<Rightarrow> Inl e
      | Inr None \<Rightarrow> Inl (HTTPException 404)
      | Inr (Some cart) \<Rightarrow> Inr cart)"

text \<open>
  \<^verbatim>\<open>delete_cart\<close>: the items of the cart are selected and deleted one by one, then the
  cart.
\<close>

definition delete_cart :: "store \<Rightarrow> int \<Rightarrow> error + store" where
  "delete_cart s cid =
     (case session_get cart_pk (carts s) cid of
        Inl e \<Rightarrow> Inl e
      | Inr None \<Rightarrow> Inl (HTTPException 404)
      | Inr (Some cart) \<Rightarrow>
          (let selected = filter (\<lambda>item. cart_id item = cid) (cart_items s);
               rows = fold (\<lambda>item rows. session_delete item_id rows item) selected (cart_items s)
           in Inr (s\<lparr>cart_items := rows, carts := session_delete cart_pk (carts s) cart\<rparr>)))"

text \<open>The dictionary a handler returns for one cart item.\<close>

record item_response =
  r_id :: "int option"
  r_furniture_type :: string
  r_furniture_id :: int
  r_quantity :: int
  r_name :: json
  r_price :: json
  r_subtotal :: json

definition item_summary :: "CartItem \<Rightarrow> error + item_response" where
  "item_summary cart_item =
     (let furniture_dict = furniture_data cart_item
      in case py_mul (dict_get furniture_dict ''price'' (JFloat 0)) (quantity cart_item) of
           Inl e \<Rightarrow> Inl e
         | Inr subtotal \<Rightarrow>
             Inr \<lparr>r_id = item_id cart_item,
                  r_furniture_type = furniture_type cart_item,
                  r_furniture_id = furniture_id cart_item,
                  r_quantity = quantity cart_item,
                  r_name = dict_get furniture_dict ''name'' (JStr ''Unknown''),
                  r_price = dict_get furniture_dict ''price'' (JFloat 0),
                  r_subtotal = subtotal\<rparr>)"

text \<open>
  \<^verbatim>\<open>add_item_to_cart\<close>. The parameter \<^verbatim>\<open>quantity: int = 1\<close> is an \<open>option\<close>: \<open>None\<close> when the
  request leaves it out.
\<close>

definition lookup_furniture :: "store \<Rightarrow> string \<Rightarrow> int \<Rightarrow> error + furniture option" where
  "lookup_furniture s ftype fid =
     (if ftype = ''sofa'' then
        map_sum id (map_option Sofa) (session_get sofa_id (sofas s) fid)
      else if ftype = ''dining_table'' then
        map_sum id (map_option DiningTable) (session_get table_id (dining_tables s) fid)
      else if ftype = ''matress'' then
        map_sum id (map_option Matress) (session_get matress_id (matresses s) fid)
      else Inl (HTTPException 400))"

definition add_item_to_cart ::
  "store \<Rightarrow> int \<Rightarrow> string \<Rightarrow> int \<Rightarrow> int option \<Rightarrow> error + (store \<times> item_response)" where
  "add_item_to_cart s cid ftype fid quantity_arg =
     (let qty = (case quantity_arg of None \<Rightarrow> 1 | Some q \<Rightarrow> q)
      in case session_get cart_pk (carts s) cid of
           Inl e \<Rightarrow> Inl e
         | Inr None \<Rightarrow> Inl (HTTPException 404)
         | Inr (Some cart) \<Rightarrow>
             (case lookup_furniture s ftype fid of
                Inl e \<Rightarrow> Inl e
              | Inr None \<Rightarrow> Inl (HTTPException 404)
              | Inr (Some furniture) \<Rightarrow>
                  (case add_item s cart furniture qty of
                     Inl e \<Rightarrow> Inl e
                   | Inr (s', cart_item) \<Rightarrow>
                       (case item_summary cart_item of
                          Inl e \<Rightarrow> Inl e
                        | Inr response \<Rightarrow> Inr (s', response)))))"

definition get_cart_items :: "store \<Rightarrow> int \<Rightarrow> error + cart_summary" where
  "get_cart_items s cid =
     (case session_get cart_pk (carts s) cid of
        Inl e \<Rightarrow> Inl e
      | Inr None \<Rightarrow> Inl (HTTPException 404)
      | Inr (Some cart) \<Rightarrow> get_cart_summary s cart)"

definition update_cart_item ::
  "store \<Rightarrow> int \<Rightarrow> int \<Rightarrow> int \<Rightarrow> error + (store \<times> item_response)" where
  "update_cart_item s cid iid qty =
     (case session_get cart_pk (carts s) cid of
        Inl e \<Rightarrow> Inl e
      | Inr None \<Rightarrow> Inl (HTTPException 404)
      | Inr (Some cart) \<Rightarrow>
          (case session_get item_id (cart_items s) iid of
             Inl e \<Rightarrow> Inl e
           | Inr None \<Rightarrow> Inl (HTTPException 404)
           | Inr (Some item) \<Rightarrow>
               (if cart_id item \<noteq> cid then Inl (HTTPException 404)
                else
                  (let item' = item\<lparr>quantity := qty\<rparr>
                   in case session_update item_id item_int_cols (cart_items s) iid item' of
                        Inl e \<Rightarrow> Inl e
                      | Inr rows \<Rightarrow>
                          (case item_summary item' of
                             Inl e \<Rightarrow> Inl e
                           | Inr response \<Rightarrow> Inr (s\<lparr>cart_items := rows\<rparr>, response))))))"

definition remove_cart_item :: "store \<Rightarrow> int \<Rightarrow> int \<Rightarrow> error + store" where
  "remove_cart_item s cid iid =
     (case session_get cart_pk (carts s) cid of
        Inl e \<Rightarrow> Inl e
      | Inr None \<Rightarrow> Inl (HTTPException 404)
      | Inr (Some cart) \<Rightarrow>
          (case session_get item_id (cart_items s) iid of
             Inl e \<Rightarrow> Inl e
           | Inr None \<Rightarrow> Inl (HTTPException 404)
           | Inr (Some item) \<Rightarrow>
               (if cart_id item \<noteq> cid then Inl (HTTPException 404)
                else Inr (s\<lparr>cart_items := session_delete item_id (cart_items s) item\<rparr>))))"

record total_response =
  t_cart_id :: int
  t_customer_name :: string
  t_total_price :: json
  t_total_quantity :: int

definition get_cart_total :: "store \<Rightarrow> int \<Rightarrow> error + total_response" where
  "get_cart_total s cid =
     (case session_get cart_pk (carts s) cid of
        Inl e \<Rightarrow> Inl e
      | Inr None \<Rightarrow> Inl (HTTPException 404)
      | Inr (Some cart) \<Rightarrow>
          (case calculate_total_price s cart of
             Inl e \<Rightarrow> Inl e
           | Inr total_price \<Rightarrow>
               Inr \<lparr>t_cart_id = cid, t_customer_name = customer_name cart,
                    t_total_price = total_price,
                    t_total_quantity = calculate_total_quantity s cart\<rparr>))"

subsection \<open>Requests on the catalog\<close>

text \<open>
  The catalog routes that write. A request whose handler raises leaves the store as it
  was: nothing is committed.
\<close>

datatype catalog_request =
    CreateSofa IkeaSofa
  | UpdateSofa int "sofa_attr list"
  | DeleteSofa int
  | CreateDiningTable IkeaDiningTable
  | UpdateDiningTable int "table_attr list"
  | DeleteDiningTable int
  | CreateMattress IkeaMatress
  | UpdateMattress int "matress_attr list"
  | DeleteMattress int

fun serve_catalog :: "catalog_request \<Rightarrow> store \<Rightarrow> store" where
  "serve_catalog (CreateSofa x) s = (case create_sofa s x of Inl e \<Rightarrow> s | Inr (s', _) \<Rightarrow> s')"
| "serve_catalog (UpdateSofa k d) s = (case update_sofa s k d of Inl e \<Rightarrow> s | Inr (s', _) \<Rightarrow> s')"
| "serve_catalog (DeleteSofa k) s = (case delete_sofa s k of Inl e \<Rightarrow> s | Inr s' \<Rightarrow> s')"
| "serve_catalog (CreateDiningTable x) s =
     (case create_dining_table s x of Inl e \<Rightarrow> s | Inr (s', _) \<Rightarrow> s')"
| "serve_catalog (UpdateDiningTable k d) s =
     (case update_dining_table s k d of Inl e \<Rightarrow> s | Inr (s', _) \<Rightarrow> s')"
| "serve_catalog (DeleteDiningTable k) s =
     (case delete_dining_table s k of Inl e \<Rightarrow> s | Inr s' \<Rightarrow> s')"
| "serve_catalog (CreateMattress x) s =
     (case create_mattress s x of Inl e \<Rightarrow> s | Inr (s', _) \<Rightarrow> s')"
| "serve_catalog (UpdateMattress k d) s =
     (case update_mattress s k d of Inl e \<Rightarrow> s | Inr (s', _) \<Rightarrow> s')"
| "serve_catalog (DeleteMattress k) s =
     (case delete_mattress s k of Inl e \<Rightarrow> s | Inr s' \<Rightarrow> s')"

definition serve_catalog_all :: "catalog_request list \<Rightarrow> store \<Rightarrow> store" where
  "serve_catalog_all reqs s = fold serve_catalog reqs s"

section \<open>Notions used in the statements\<close>

text \<open>The price of a catalog record, whatever its class.\<close>

definition furniture_price :: "furniture \<Rightarrow> real" where
  "furniture_price f =
     (case f of Sofa x \<Rightarrow> price x | DiningTable x \<Rightarrow> price x | Matress x \<Rightarrow> price x
      | OtherObject \<Rightarrow> 0)"

text \<open>The dictionary \<^verbatim>\<open>add_item\<close> builds from a record, and the row it inserts.\<close>

definition furniture_snapshot :: "furniture \<Rightarrow> pydict" where
  "furniture_snapshot f = dict_update (furniture_dict_common f) (type_specific_fields f)"

definition new_cart_item :: "store \<Rightarrow> int \<Rightarrow> string \<Rightarrow> int \<Rightarrow> int \<Rightarrow> furniture \<Rightarrow> CartItem" where
  "new_cart_item s cid ftype fid qty f =
     \<lparr>item_id = Some (next_rowid item_id (cart_items s)), cart_id = cid, furniture_type = ftype,
      furniture_id = fid, quantity = qty, furniture_data = furniture_snapshot f\<rparr>"

text \<open>
  The price a line item carries: the number under the key \<^verbatim>\<open>price\<close> of its dictionary.
  Every row that \<^verbatim>\<open>add_item\<close> writes has one (\<open>items_wf\<close>), and no handler writes
  \<^verbatim>\<open>furniture_data\<close> otherwise.
\<close>

definition snapshot_price :: "CartItem \<Rightarrow> real option" where
  "snapshot_price item =
     (case map_of (furniture_data item) ''price'' of Some (JFloat p) \<Rightarrow> Some p | _ \<Rightarrow> None)"

definition items_wf :: "store \<Rightarrow> bool" where
  "items_wf s = list_all (\<lambda>item. snapshot_price item \<noteq> None) (cart_items s)"

definition line_total :: "CartItem \<Rightarrow> real" where
  "line_total item = the (snapshot_price item) * real_of_int (quantity item)"

section \<open>Example data\<close>

definition demo_sofa :: IkeaSofa where
  "demo_sofa =
     \<lparr>name = ''KIVIK'', price = 500, color = ''Gray'', material = ''Leather'', weight_kg = 45,
      date_added = ''2024-01-01'', in_stock = True,
      sofa_id = Some 1, sofa_seats = 3, has_sleeper = False, fabric_type = ''Velvet''\<rparr>"

definition demo_table :: IkeaDiningTable where
  "demo_table =
     \<lparr>name = ''EKEDALEN'', price = 250, color = ''Oak'', material = ''Wood'', weight_kg = 25,
      date_added = ''2024-01-01'', in_stock = True,
      table_id = Some 1, table_seats = 4, shape = ''Round'', extendable = False\<rparr>"

definition demo_matress :: IkeaMatress where
  "demo_matress =
     \<lparr>name = ''HAUGESUND'', price = 100, color = ''White'', material = ''Latex'', weight_kg = 15,
      date_added = ''2024-01-01'', in_stock = True,
      matress_id = Some 1, matress_size = ''Queen'', firmness = ''Firm'', thickness_cm = 20\<rparr>"

definition demo_cart :: ShoppingCart where
  "demo_cart =
     \<lparr>cart_pk = Some 1, created_date = ''2024-01-02'', customer_name = ''John Doe'',
      customer_email = None\<rparr>"

text \<open>One record of each kind and one cart, no line item yet.\<close>

definition demo_store :: store where
  "demo_store =
     \<lparr>sofas = [demo_sofa], dining_tables = [demo_table], matresses = [demo_matress],
      carts = [demo_cart], cart_items = []\<rparr>"

text \<open>The example store after a mattress and two dining tables went into the cart.\<close>

definition demo_line_matress :: CartItem where
  "demo_line_matress =
     \<lparr>item_id = Some 1, cart_id = 1, furniture_type = ''matress'', furniture_id = 1,
      quantity = 1, furniture_data = furniture_snapshot (Matress demo_matress)\<rparr>"

definition demo_line_table :: CartItem where
  "demo_line_table =
     \<lparr>item_id = Some 2, cart_id = 1, furniture_type = ''dining_table'', furniture_id = 1,
      quantity = 2, furniture_data = furniture_snapshot (DiningTable demo_table)\<rparr>"

definition demo_store_filled :: store where
  "demo_store_filled = demo_store\<lparr>cart_items := [demo_line_matress, demo_line_table]\<rparr>"

text \<open>The sofa in the cart, and the request that raises its price afterwards.\<close>

definition demo_line_sofa :: CartItem where
  "demo_line_sofa =
     \<lparr>item_id = Some 1, cart_id = 1, furniture_type = ''sofa'', furniture_id = 1,
      quantity = 1, furniture_data = furniture_snapshot (Sofa demo_sofa)\<rparr>"

definition demo_price_update :: catalog_request where
  "demo_price_update = UpdateSofa 1 [Sofa_common (Price 600)]"

text \<open>The same sofa a second time, two of them.\<close>

definition demo_line_sofa_again :: CartItem where
  "demo_line_sofa_again =
     \<lparr>item_id = Some 2, cart_id = 1, furniture_type = ''sofa'', furniture_id = 1,
      quantity = 2, furniture_data = furniture_snapshot (Sofa demo_sofa)\<rparr>"

text \<open>A second cart with a sofa of its own beside the first cart.\<close>

definition demo_cart_other :: ShoppingCart where
  "demo_cart_other =
     \<lparr>cart_pk = Some 2, created_date = ''2024-01-03'', customer_name = ''Jane Roe'',
      customer_email = None\<rparr>"

definition demo_line_other :: CartItem where
  "demo_line_other =
     \<lparr>item_id = Some 3, cart_id = 2, furniture_type = ''sofa'', furniture_id = 1,
      quantity = 1, furniture_data = furniture_snapshot (Sofa demo_sofa)\<rparr>"

definition demo_store_two_carts :: store where
  "demo_store_two_carts =
     demo_store\<lparr>carts := [demo_cart, demo_cart_other],
                cart_items := [demo_line_matress, demo_line_table, demo_line_other]\<rparr>"

text \<open>
  A catalog record of the kind named by the tag exists under the id. The tags are spelt
  as the code spells them.
\<close>

definition catalog_has :: "store \<Rightarrow> string \<Rightarrow> int \<Rightarrow> bool" where
  "catalog_has s ftype fid \<longleftrightarrow>
     ftype = ''sofa'' \<and> list_ex (\<lambda>r. sofa_id r = Some fid) (sofas s)
     \<or> ftype = ''dining_table'' \<and> list_ex (\<lambda>r. table_id r = Some fid) (dining_tables s)
     \<or> ftype = ''matress'' \<and> list_ex (\<lambda>r. matress_id r = Some fid) (matresses s)"

text \<open>
  What a list call asks of a record, in the words of the specification: every filter that
  is supplied must hold, a filter that is left out asks nothing; a text filter supplied
  as the empty string counts as left out.
\<close>

definition sofa_matches ::
  "string option \<Rightarrow> real option \<Rightarrow> real option \<Rightarrow> bool option \<Rightarrow> IkeaSofa \<Rightarrow> bool" where
  "sofa_matches material_f min_price max_price has_sleeper_f r \<longleftrightarrow>
     (case material_f of None \<Rightarrow> True | Some m \<Rightarrow> m = [] \<or> material r = m)
     \<and> (case min_price of None \<Rightarrow> True | Some lo \<Rightarrow> lo \<le> price r)
     \<and> (case max_price of None \<Rightarrow> True | Some hi \<Rightarrow> price r \<le> hi)
     \<and> (case has_sleeper_f of None \<Rightarrow> True | Some b \<Rightarrow> has_sleeper r = b)"

definition table_matches ::
  "string option \<Rightarrow> real option \<Rightarrow> real option \<Rightarrow> string option \<Rightarrow> bool option
    \<Rightarrow> IkeaDiningTable \<Rightarrow> bool" where
  "table_matches material_f min_price max_price shape_f extendable_f r \<longleftrightarrow>
     (case material_f of None \<Rightarrow> True | Some m \<Rightarrow> m = [] \<or> material r = m)
     \<and> (case min_price of None \<Rightarrow> True | Some lo \<Rightarrow> lo \<le> price r)
     \<and> (case max_price of None \<Rightarrow> True | Some hi \<Rightarrow> price r \<le> hi)
     \<and> (case shape_f of None \<Rightarrow> True | Some sh \<Rightarrow> sh = [] \<or> shape r = sh)
     \<and> (case extendable_f of None \<Rightarrow> True | Some b \<Rightarrow> extendable r = b)"

definition matress_matches ::
  "string option \<Rightarrow> real option \<Rightarrow> real option \<Rightarrow> string option \<Rightarrow> string option
    \<Rightarrow> IkeaMatress \<Rightarrow> bool" where
  "matress_matches material_f min_price max_price size_f firmness_f r \<longleftrightarrow>
     (case material_f of None \<Rightarrow> True | Some m \<Rightarrow> m = [] \<or> material r = m)
     \<and> (case min_price of None \<Rightarrow> True | Some lo \<Rightarrow> lo \<le> price r)
     \<and> (case max_price of None \<Rightarrow> True | Some hi \<Rightarrow> price r \<le> hi)
     \<and> (case size_f of None \<Rightarrow> True | Some sz \<Rightarrow> sz = [] \<or> matress_size r = sz)
     \<and> (case firmness_f of None \<Rightarrow> True | Some fi \<Rightarrow> fi = [] \<or> firmness r = fi)"

text \<open>A catalog of three sofas: leather at 500, leather at 50, cotton at 300.\<close>

definition demo_sofa_cheap :: IkeaSofa where
  "demo_sofa_cheap =
     \<lparr>name = ''KLIPPAN'', price = 50, color = ''Black'', material = ''Leather'', weight_kg = 30,
      date_added = ''2024-01-01'', in_stock = True,
      sofa_id = Some 2, sofa_seats = 2, has_sleeper = False, fabric_type = ''Canvas''\<rparr>"

definition demo_sofa_cotton :: IkeaSofa where
  "demo_sofa_cotton =
     \<lparr>name = ''EKTORP'', price = 300, color = ''Beige'', material = ''Cotton'', weight_kg = 40,
      date_added = ''2024-01-01'', in_stock = True,
      sofa_id = Some 3, sofa_seats = 3, has_sleeper = True, fabric_type = ''Tweed''\<rparr>"

definition demo_catalog :: store where
  "demo_catalog = empty_store\<lparr>sofas := [demo_sofa, demo_sofa_cheap, demo_sofa_cotton]\<rparr>"

text \<open>A sofa entered with a price below zero: no handler checks the sign of a price.\<close>

definition demo_sofa_negative :: IkeaSofa where
  "demo_sofa_negative =
     \<lparr>name = ''RETURN'', price = - 1, color = ''Gray'', material = ''Wool'', weight_kg = 40,
      date_added = ''2024-01-01'', in_stock = True,
      sofa_id = Some 1, sofa_seats = 3, has_sleeper = False, fabric_type = ''Tweed''\<rparr>"

section \<open>The session: keys, insertion, lookup\<close>

lemma find_row_simps [simp]:
  "find_row pk [] k = None"
  "find_row pk (r # rows) k = (if pk r = Some k then Some r else find_row pk rows k)"
  by (simp_all add: find_row_def)

lemma find_row_SomeD:
  "find_row pk rows k = Some r \<Longrightarrow> r \<in> set rows \<and> pk r = Some k"
  unfolding find_row_def by (auto simp: find_Some_iff)

lemma find_row_None_iff:
  "find_row pk rows k = None \<longleftrightarrow> (\<forall>r \<in> set rows. pk r \<noteq> Some k)"
  unfolding find_row_def by (auto simp: find_None_iff)

lemma find_row_Some_iff_ex:
  "(\<exists>r. find_row pk rows k = Some r) \<longleftrightarrow> (\<exists>r \<in> set rows. pk r = Some k)"
  using find_row_None_iff[of pk rows k] by (cases "find_row pk rows k") auto

lemma session_get_Inr_iff:
  "session_get pk rows k = Inr x \<longleftrightarrow> in_int64 k \<and> find_row pk rows k = x"
  by (simp add: session_get_def)

lemma session_get_Inl_iff:
  "session_get pk rows k = Inl e \<longleftrightarrow> \<not> in_int64 k \<and> e = OverflowError"
  by (auto simp: session_get_def)

lemma session_get_SomeD:
  "session_get pk rows k = Inr (Some r) \<Longrightarrow> in_int64 k \<and> r \<in> set rows \<and> pk r = Some k"
  by (auto simp: session_get_Inr_iff dest: find_row_SomeD)

lemma set_insert_row [simp]: "set (insert_row pk k r rows) = insert r (set rows)"
  by (induction rows) (auto split: option.splits)

lemma length_insert_row [simp]: "length (insert_row pk k r rows) = Suc (length rows)"
  by (induction rows) (auto split: option.splits)

lemma sum_list_filter_insert_row:
  fixes f :: "'r \<Rightarrow> 'a::comm_monoid_add"
  shows "sum_list (map f (filter P (insert_row pk k r rows))) =
           (if P r then f r else 0) + sum_list (map f (filter P rows))"
  by (induction rows) (auto split: option.splits simp: add.left_commute)

lemma length_filter_insert_row:
  "length (filter P (insert_row pk k r rows)) =
     (if P r then 1 else 0) + length (filter P rows)"
  by (induction rows) (auto split: option.splits)

lemma next_rowid_fresh:
  "r \<in> set rows \<Longrightarrow> pk r \<noteq> Some (next_rowid pk rows)"
proof
  assume r: "r \<in> set rows" and eq: "pk r = Some (next_rowid pk rows)"
  let ?ks = "List.map_filter pk rows"
  have mem: "next_rowid pk rows \<in> set ?ks"
    using r eq by (force simp: List.map_filter_def)
  then obtain k ks where ks: "?ks = k # ks" by (cases ?ks) auto
  have "next_rowid pk rows \<le> Max (set ?ks)"
    using mem by (intro Max_ge) auto
  moreover have "next_rowid pk rows = Max (set ?ks) + 1"
    by (simp add: next_rowid_def ks)
  ultimately show False by simp
qed

lemma find_row_insert_row_new:
  "\<forall>r \<in> set rows. pk r \<noteq> Some k \<Longrightarrow> pk obj = Some k \<Longrightarrow>
     find_row pk (insert_row pk k obj rows) k = Some obj"
  by (induction rows) (auto split: option.splits)

lemma find_row_insert_row_other:
  "pk obj = Some k \<Longrightarrow> j \<noteq> k \<Longrightarrow>
     find_row pk (insert_row pk k obj rows) j = find_row pk rows j"
  by (induction rows) (auto split: option.splits)

lemma find_row_map_replace:
  "find_row pk rows k = Some old \<Longrightarrow> pk obj = Some k \<Longrightarrow>
     find_row pk (map (\<lambda>r. if pk r = Some k then obj else r) rows) k = Some obj"
  by (induction rows) (auto split: if_splits)

lemma find_row_map_replace_other:
  "pk obj = Some k \<Longrightarrow> j \<noteq> k \<Longrightarrow>
     find_row pk (map (\<lambda>r. if pk r = Some k then obj else r) rows) j = find_row pk rows j"
  by (induction rows) auto

lemma in_int64_small [simp]:
  "in_int64 0" "in_int64 1" "in_int64 2"
  "in_int64 3" "in_int64 7" "in_int64 100" "in_int64 (- 3)"
  "\<not> in_int64 (2 ^ 63)"
  by (simp_all add: in_int64_def)

section \<open>Adding an item\<close>

lemma snapshot_price_of_record:
  "f \<noteq> OtherObject \<Longrightarrow>
     map_of (furniture_snapshot f) ''price'' = Some (JFloat (furniture_price f))"
  by (cases f)
    (simp_all add: furniture_snapshot_def dict_update_def common_fields_def furniture_price_def)

lemma lookup_furniture_SomeD:
  assumes "lookup_furniture s ftype fid = Inr (Some f)"
  shows "furniture_type_map_get f = Some ftype" and "furniture_pk f = Some fid"
    and "f \<noteq> OtherObject" and "in_int64 fid"
  using assms
  by (auto simp: lookup_furniture_def session_get_def split: if_splits dest: find_row_SomeD)

lemma lookup_furniture_400_iff:
  "lookup_furniture s ftype fid = Inl (HTTPException 400) \<longleftrightarrow>
     ftype \<notin> {''sofa'', ''dining_table'', ''matress''}"
  by (auto simp: lookup_furniture_def session_get_def)

lemma lookup_furniture_sofa:
  "lookup_furniture s ''sofa'' fid =
     (if in_int64 fid then Inr (map_option Sofa (find_row sofa_id (sofas s) fid))
      else Inl OverflowError)"
  by (simp add: lookup_furniture_def session_get_def)

lemma lookup_furniture_dining_table:
  "lookup_furniture s ''dining_table'' fid =
     (if in_int64 fid then Inr (map_option DiningTable (find_row table_id (dining_tables s) fid))
      else Inl OverflowError)"
  by (simp add: lookup_furniture_def session_get_def)

lemma lookup_furniture_matress:
  "lookup_furniture s ''matress'' fid =
     (if in_int64 fid then Inr (map_option Matress (find_row matress_id (matresses s) fid))
      else Inl OverflowError)"
  by (simp add: lookup_furniture_def session_get_def)

lemma new_cart_item_sel [simp]:
  "item_id (new_cart_item s cid ftype fid qty f) = Some (next_rowid item_id (cart_items s))"
  "cart_id (new_cart_item s cid ftype fid qty f) = cid"
  "furniture_type (new_cart_item s cid ftype fid qty f) = ftype"
  "furniture_id (new_cart_item s cid ftype fid qty f) = fid"
  "quantity (new_cart_item s cid ftype fid qty f) = qty"
  "furniture_data (new_cart_item s cid ftype fid qty f) = furniture_snapshot f"
  by (simp_all add: new_cart_item_def)

lemma item_summary_new:
  "f \<noteq> OtherObject \<Longrightarrow>
   item_summary (new_cart_item s cid ftype fid qty f) =
     Inr \<lparr>r_id = Some (next_rowid item_id (cart_items s)), r_furniture_type = ftype,
          r_furniture_id = fid, r_quantity = qty,
          r_name = dict_get (furniture_snapshot f) ''name'' (JStr ''Unknown''),
          r_price = JFloat (furniture_price f),
          r_subtotal = JFloat (furniture_price f * real_of_int qty)\<rparr>"
  by (simp add: item_summary_def dict_get_def snapshot_price_of_record)

lemma add_item_eq:
  assumes "cart_pk cart = Some cid" "furniture_type_map_get f = Some ftype"
    "furniture_pk f = Some fid" "in_int64 cid" "in_int64 fid"
  shows "add_item s cart f qty =
     (if \<not> in_int64 qty then Inl OverflowError
      else if \<not> in_int64 (next_rowid item_id (cart_items s)) then Inl OperationalError
      else Inr (s\<lparr>cart_items := insert_row item_id (next_rowid item_id (cart_items s))
                              (new_cart_item s cid ftype fid qty f) (cart_items s)\<rparr>,
                new_cart_item s cid ftype fid qty f))"
  using assms
  by (simp add: add_item_def session_add_def Let_def new_cart_item_def furniture_snapshot_def
      item_int_cols_def)

lemma add_item_to_cart_eq:
  assumes cart: "session_get cart_pk (carts s) cid = Inr (Some cart)"
    and f: "lookup_furniture s ftype fid = Inr (Some f)"
  shows "add_item_to_cart s cid ftype fid q =
     (let qty = (case q of None \<Rightarrow> 1 | Some n \<Rightarrow> n);
          item = new_cart_item s cid ftype fid qty f
      in if \<not> in_int64 qty then Inl OverflowError
         else if \<not> in_int64 (next_rowid item_id (cart_items s)) then Inl OperationalError
         else Inr (s\<lparr>cart_items :=
                  insert_row item_id (next_rowid item_id (cart_items s)) item (cart_items s)\<rparr>,
              \<lparr>r_id = item_id item, r_furniture_type = ftype,
               r_furniture_id = fid, r_quantity = qty,
               r_name = dict_get (furniture_snapshot f) ''name'' (JStr ''Unknown''),
               r_price = JFloat (furniture_price f),
               r_subtotal = JFloat (furniture_price f * real_of_int qty)\<rparr>))"
proof -
  have pk: "cart_pk cart = Some cid" and c64: "in_int64 cid"
    using cart by (auto dest: session_get_SomeD)
  note ff = lookup_furniture_SomeD[OF f]
  show ?thesis
    by (simp add: add_item_to_cart_def cart f Let_def add_item_eq[OF pk ff(1) ff(2) c64 ff(4)]
        item_summary_new[OF ff(3)])
qed

lemma add_item_to_cart_InrD:
  assumes "add_item_to_cart s cid ftype fid q = Inr (s', r)"
  shows "\<exists>cart f. session_get cart_pk (carts s) cid = Inr (Some cart) \<and>
                  lookup_furniture s ftype fid = Inr (Some f)"
  using assms
  by (auto simp: add_item_to_cart_def Let_def split: option.splits sum.splits)

lemma get_items_add:
  assumes c: "session_get cart_pk (carts s) cid = Inr (Some cart)"
    and f: "lookup_furniture s ftype fid = Inr (Some f)"
    and add: "add_item_to_cart s cid ftype fid q = Inr (s1, r)"
  shows "cart_items s1 = insert_row item_id (next_rowid item_id (cart_items s))
            (new_cart_item s cid ftype fid (case q of None \<Rightarrow> 1 | Some n \<Rightarrow> n) f) (cart_items s)"
    and "carts s1 = carts s"
    and "r_id r = Some (next_rowid item_id (cart_items s))"
    and "r_price r = JFloat (furniture_price f)"
    and "r_quantity r = (case q of None \<Rightarrow> 1 | Some n \<Rightarrow> n)"
    and "sofas s1 = sofas s" and "dining_tables s1 = dining_tables s"
    and "matresses s1 = matresses s"
    and "in_int64 (case q of None \<Rightarrow> 1 | Some n \<Rightarrow> n)"
    and "in_int64 (next_rowid item_id (cart_items s))"
  using add add_item_to_cart_eq[OF c f, of q] by (auto simp: Let_def split: if_splits)

section \<open>Totals\<close>

lemma py_sum_from_float:
  "py_sum_from (JFloat a) (map (\<lambda>x. Inr (JFloat (f x))) xs) =
     Inr (JFloat (a + sum_list (map f xs)))"
  by (induction xs arbitrary: a) (simp_all add: add.assoc)

lemma py_sum_floats:
  "py_sum (map (\<lambda>x. Inr (JFloat (f x))) xs) =
     Inr (if xs = [] then JInt 0 else JFloat (sum_list (map f xs)))"
  by (cases xs) (simp_all add: py_sum_def py_sum_from_float)

lemma py_mul_price:
  "snapshot_price item \<noteq> None \<Longrightarrow>
     py_mul (dict_get (furniture_data item) ''price'' (JFloat 0)) (quantity item) =
       Inr (JFloat (line_total item))"
  by (auto simp: snapshot_price_def dict_get_def line_total_def
      split: option.splits json.splits)

lemma items_wf_get_items:
  "items_wf s \<Longrightarrow> item \<in> set (get_items s cart) \<Longrightarrow> snapshot_price item \<noteq> None"
  by (auto simp: items_wf_def get_items_def list_all_iff)

lemma calculate_total_price_wf:
  assumes "items_wf s"
  shows "calculate_total_price s cart =
     Inr (if get_items s cart = [] then JInt 0
          else JFloat (sum_list (map line_total (get_items s cart))))"
proof -
  have "map (\<lambda>item. py_mul (dict_get (furniture_data item) ''price'' (JFloat 0)) (quantity item))
          (get_items s cart) = map (\<lambda>item. Inr (JFloat (line_total item))) (get_items s cart)"
    using items_wf_get_items[OF assms] by (intro map_cong refl py_mul_price)
  then have "calculate_total_price s cart =
      py_sum (map (\<lambda>item. Inr (JFloat (line_total item))) (get_items s cart))"
    by (simp only: calculate_total_price_def)
  then show ?thesis
    by (simp only: py_sum_floats)
qed

lemma foldl_plus_sum_list: "foldl (+) (a::int) xs = a + sum_list xs"
  by (induction xs arbitrary: a) simp_all

lemma calculate_total_quantity_sum:
  "calculate_total_quantity s cart = sum_list (map quantity (get_items s cart))"
  by (simp add: calculate_total_quantity_def foldl_plus_sum_list)

section \<open>What the handlers keep\<close>

lemma serve_catalog_cart_part:
  "cart_items (serve_catalog req s) = cart_items s \<and> carts (serve_catalog req s) = carts s"
  by (cases req)
    (auto simp: create_sofa_def update_sofa_def delete_sofa_def
      create_dining_table_def update_dining_table_def delete_dining_table_def
      create_mattress_def update_mattress_def delete_mattress_def Let_def
      split: sum.splits option.splits prod.splits)

lemma serve_catalog_all_cart_part:
  "cart_items (serve_catalog_all reqs s) = cart_items s \<and>
   carts (serve_catalog_all reqs s) = carts s"
  unfolding serve_catalog_all_def
  by (induction reqs arbitrary: s) (simp_all add: serve_catalog_cart_part)

lemma get_items_cong:
  "cart_items s = cart_items s' \<Longrightarrow> get_items s cart = get_items s' cart"
  by (simp add: get_items_def)

lemma calculate_total_price_cong:
  "cart_items s = cart_items s' \<Longrightarrow> calculate_total_price s cart = calculate_total_price s' cart"
  by (simp add: calculate_total_price_def get_items_def)

lemma calculate_total_quantity_cong:
  "cart_items s = cart_items s' \<Longrightarrow>
     calculate_total_quantity s cart = calculate_total_quantity s' cart"
  by (simp add: calculate_total_quantity_def get_items_def)

lemma items_wf_cong: "cart_items s = cart_items s' \<Longrightarrow> items_wf s = items_wf s'"
  by (simp add: items_wf_def)

lemma snapshot_price_new [simp]:
  "f \<noteq> OtherObject \<Longrightarrow>
     snapshot_price (new_cart_item s cid ftype fid qty f) = Some (furniture_price f)"
  by (simp add: snapshot_price_def snapshot_price_of_record)

lemma items_wf_empty: "items_wf empty_store"
  by (simp add: items_wf_def empty_store_def)

lemma items_wf_add_item_to_cart:
  assumes "items_wf s" "add_item_to_cart s cid ftype fid q = Inr (s', r)"
  shows "items_wf s'"
proof -
  obtain cart f where c: "session_get cart_pk (carts s) cid = Inr (Some cart)"
    and f: "lookup_furniture s ftype fid = Inr (Some f)"
    using add_item_to_cart_InrD[OF assms(2)] by blast
  show ?thesis
    using assms add_item_to_cart_eq[OF c f, of q] lookup_furniture_SomeD(3)[OF f]
    by (auto simp: Let_def items_wf_def list_all_iff split: if_splits)
qed

lemma update_cart_item_InrD:
  assumes "update_cart_item s cid iid qty = Inr (s', r)"
  shows "\<exists>cart item. session_get cart_pk (carts s) cid = Inr (Some cart)
           \<and> session_get item_id (cart_items s) iid = Inr (Some item) \<and> cart_id item = cid
           \<and> s' = s\<lparr>cart_items :=
                       map (\<lambda>x. if item_id x = Some iid then item\<lparr>quantity := qty\<rparr> else x)
                         (cart_items s)\<rparr>
           \<and> item_summary (item\<lparr>quantity := qty\<rparr>) = Inr r \<and> in_int64 qty"
  using assms
  by (auto simp: update_cart_item_def session_update_def Let_def item_int_cols_def
      split: option.splits sum.splits if_splits dest: session_get_SomeD)

lemma items_wf_update_cart_item:
  assumes "items_wf s" "update_cart_item s cid iid qty = Inr (s', r)"
  shows "items_wf s'"
proof -
  obtain item where i: "session_get item_id (cart_items s) iid = Inr (Some item)"
    and s': "s' = s\<lparr>cart_items :=
                       map (\<lambda>x. if item_id x = Some iid then item\<lparr>quantity := qty\<rparr> else x)
                         (cart_items s)\<rparr>"
    using update_cart_item_InrD[OF assms(2)] by blast
  have "item \<in> set (cart_items s)" using i by (auto dest: session_get_SomeD)
  then show ?thesis
    using assms(1) by (auto simp: s' items_wf_def list_all_iff snapshot_price_def)
qed

lemma items_wf_remove_cart_item:
  assumes "items_wf s" "remove_cart_item s cid iid = Inr s'"
  shows "items_wf s'"
  using assms
  by (auto simp: remove_cart_item_def session_delete_def items_wf_def list_all_iff
      split: option.splits sum.splits if_splits)

lemma set_fold_session_delete:
  "set (fold (\<lambda>item rows. session_delete pk rows item) sel rows) =
     {r \<in> set rows. \<forall>x \<in> set sel. pk r \<noteq> pk x}"
  by (induction sel arbitrary: rows) (auto simp: session_delete_def)

lemma items_wf_delete_cart:
  assumes "items_wf s" "delete_cart s cid = Inr s'"
  shows "items_wf s'"
  using assms
  by (auto simp: delete_cart_def Let_def items_wf_def list_all_iff set_fold_session_delete
      split: option.splits sum.splits)

lemma items_wf_serve_catalog_all: "items_wf (serve_catalog_all reqs s) = items_wf s"
  by (rule items_wf_cong) (simp add: serve_catalog_all_cart_part)

lemma lookup_furniture_cong:
  "sofas s = sofas s' \<Longrightarrow> dining_tables s = dining_tables s' \<Longrightarrow> matresses s = matresses s'
     \<Longrightarrow> lookup_furniture s ftype fid = lookup_furniture s' ftype fid"
  by (simp add: lookup_furniture_def)

section \<open>Deleting a cart\<close>

lemma fold_session_delete:
  "fold (\<lambda>item rows. session_delete pk rows item) sel rows =
     filter (\<lambda>r. \<forall>x \<in> set sel. pk r \<noteq> pk x) rows"
proof (induction sel arbitrary: rows)
  case Nil
  then show ?case by simp
next
  case (Cons x sel)
  then show ?case
    by (auto simp: session_delete_def intro: filter_cong)
qed

lemma delete_cart_Some:
  assumes "session_get cart_pk (carts s) cid = Inr (Some cart)"
  shows "delete_cart s cid =
     Inr (s\<lparr>cart_items :=
               filter (\<lambda>r. \<forall>x \<in> set (filter (\<lambda>item. cart_id item = cid) (cart_items s)).
                              item_id r \<noteq> item_id x) (cart_items s),
            carts := filter (\<lambda>r. cart_pk r \<noteq> Some cid) (carts s)\<rparr>)"
proof -
  have pk: "cart_pk cart = Some cid" using assms by (auto dest: session_get_SomeD)
  have "delete_cart s cid =
     Inr (s\<lparr>cart_items :=
               fold (\<lambda>item rows. session_delete item_id rows item)
                 (filter (\<lambda>item. cart_id item = cid) (cart_items s)) (cart_items s),
            carts := session_delete cart_pk (carts s) cart\<rparr>)"
    by (simp add: delete_cart_def assms Let_def)
  also have "session_delete cart_pk (carts s) cart = filter (\<lambda>r. cart_pk r \<noteq> Some cid) (carts s)"
    by (simp add: session_delete_def pk)
  finally show ?thesis
    by (simp only: fold_session_delete)
qed

section \<open>The example store\<close>

lemma session_get_in_range [simp]:
  "in_int64 k \<Longrightarrow> session_get pk rows k = Inr (find_row pk rows k)"
  by (simp add: session_get_def)

lemma demo_get [simp]:
  "session_get cart_pk (carts demo_store) 1 = Inr (Some demo_cart)"
  "session_get sofa_id (sofas demo_store) 1 = Inr (Some demo_sofa)"
  "session_get table_id (dining_tables demo_store) 1 = Inr (Some demo_table)"
  "session_get matress_id (matresses demo_store) 1 = Inr (Some demo_matress)"
  by (simp_all add: demo_store_def demo_cart_def demo_sofa_def demo_table_def
      demo_matress_def)

lemma demo_store_sel [simp]:
  "carts demo_store = [demo_cart]" "cart_items demo_store = []"
  "sofas demo_store = [demo_sofa]" "dining_tables demo_store = [demo_table]"
  "matresses demo_store = [demo_matress]"
  by (simp_all add: demo_store_def)

lemma demo_store_filled_sel [simp]:
  "carts demo_store_filled = [demo_cart]"
  "cart_items demo_store_filled = [demo_line_matress, demo_line_table]"
  "sofas demo_store_filled = [demo_sofa]" "dining_tables demo_store_filled = [demo_table]"
  "matresses demo_store_filled = [demo_matress]"
  by (simp_all add: demo_store_filled_def)

lemma demo_pk [simp]:
  "cart_pk demo_cart = Some 1" "sofa_id demo_sofa = Some 1" "table_id demo_table = Some 1"
  "matress_id demo_matress = Some 1" "price demo_sofa = 500" "price demo_table = 250"
  "price demo_matress = 100"
  by (simp_all add: demo_cart_def demo_sofa_def demo_table_def demo_matress_def)

lemma demo_line_sel [simp]:
  "item_id demo_line_matress = Some 1" "cart_id demo_line_matress = 1"
  "quantity demo_line_matress = 1" 
  "furniture_data demo_line_matress = furniture_snapshot (Matress demo_matress)"
  "item_id demo_line_table = Some 2" "cart_id demo_line_table = 1"
  "quantity demo_line_table = 2" 
  "furniture_data demo_line_table = furniture_snapshot (DiningTable demo_table)"
  by (simp_all add: demo_line_matress_def demo_line_table_def)

lemma demo_snapshot_price [simp]:
  "snapshot_price demo_line_matress = Some 100"
  "snapshot_price demo_line_table = Some 250"
  by (simp_all add: snapshot_price_def snapshot_price_of_record furniture_price_def)

lemma demo_store_filled_reached:
  "add_item_to_cart demo_store 1 ''matress'' 1 None =
     Inr (demo_store\<lparr>cart_items := [demo_line_matress]\<rparr>,
          \<lparr>r_id = Some 1, r_furniture_type = ''matress'', r_furniture_id = 1, r_quantity = 1,
           r_name = JStr ''HAUGESUND'', r_price = JFloat 100, r_subtotal = JFloat 100\<rparr>)"
  "add_item_to_cart (demo_store\<lparr>cart_items := [demo_line_matress]\<rparr>) 1 ''dining_table'' 1 (Some 2) =
     Inr (demo_store_filled,
          \<lparr>r_id = Some 2, r_furniture_type = ''dining_table'', r_furniture_id = 1, r_quantity = 2,
           r_name = JStr ''EKEDALEN'', r_price = JFloat 250, r_subtotal = JFloat 500\<rparr>)"
proof -
  have a: "lookup_furniture demo_store ''matress'' 1 = Inr (Some (Matress demo_matress))"
    by (simp add: lookup_furniture_def)
  have n: "dict_get (furniture_snapshot (Matress demo_matress)) ''name'' (JStr ''Unknown'') = JStr ''HAUGESUND''"
    by (simp add: dict_get_def furniture_snapshot_def dict_update_def common_fields_def demo_matress_def)
  show "add_item_to_cart demo_store 1 ''matress'' 1 None =
     Inr (demo_store\<lparr>cart_items := [demo_line_matress]\<rparr>,
          \<lparr>r_id = Some 1, r_furniture_type = ''matress'', r_furniture_id = 1, r_quantity = 1,
           r_name = JStr ''HAUGESUND'', r_price = JFloat 100, r_subtotal = JFloat 100\<rparr>)"
    using add_item_to_cart_eq[OF demo_get(1) a, of None]
    by (simp add: Let_def n furniture_price_def new_cart_item_def next_rowid_def in_int64_def demo_line_matress_def)
  let ?s = "demo_store\<lparr>cart_items := [demo_line_matress]\<rparr>"
  have c: "session_get cart_pk (carts ?s) 1 = Inr (Some demo_cart)"
    by simp
  have b: "lookup_furniture ?s ''dining_table'' 1 = Inr (Some (DiningTable demo_table))"
    by (simp add: lookup_furniture_def)
  have m: "dict_get (furniture_snapshot (DiningTable demo_table)) ''name'' (JStr ''Unknown'') = JStr ''EKEDALEN''"
    by (simp add: dict_get_def furniture_snapshot_def dict_update_def common_fields_def demo_table_def)
  show "add_item_to_cart ?s 1 ''dining_table'' 1 (Some 2) =
     Inr (demo_store_filled,
          \<lparr>r_id = Some 2, r_furniture_type = ''dining_table'', r_furniture_id = 1, r_quantity = 2,
           r_name = JStr ''EKEDALEN'', r_price = JFloat 250, r_subtotal = JFloat 500\<rparr>)"
    using add_item_to_cart_eq[OF c b, of "Some 2"]
    by (simp add: Let_def m furniture_price_def new_cart_item_def next_rowid_def in_int64_def demo_line_table_def
        demo_store_filled_def)
qed

lemma demo_store_filled_wf: "items_wf demo_store_filled"
  by (simp add: items_wf_def)

lemma demo_get_items [simp]:
  "get_items demo_store_filled demo_cart = [demo_line_matress, demo_line_table]"
  "get_items demo_store demo_cart = []"
  by (simp_all add: get_items_def)

lemma demo_add_sofa:
  "add_item_to_cart demo_store 1 ''sofa'' 1 None =
     Inr (demo_store\<lparr>cart_items := [demo_line_sofa]\<rparr>,
          \<lparr>r_id = Some 1, r_furniture_type = ''sofa'', r_furniture_id = 1, r_quantity = 1,
           r_name = JStr ''KIVIK'', r_price = JFloat 500, r_subtotal = JFloat 500\<rparr>)"
proof -
  have a: "lookup_furniture demo_store ''sofa'' 1 = Inr (Some (Sofa demo_sofa))"
    by (simp add: lookup_furniture_def)
  have n: "dict_get (furniture_snapshot (Sofa demo_sofa)) ''name'' (JStr ''Unknown'') = JStr ''KIVIK''"
    by (simp add: dict_get_def furniture_snapshot_def dict_update_def common_fields_def demo_sofa_def)
  show ?thesis
    using add_item_to_cart_eq[OF demo_get(1) a, of None]
    by (simp add: Let_def n furniture_price_def new_cart_item_def next_rowid_def in_int64_def demo_line_sofa_def)
qed

lemma demo_price_update_served:
  "sofas (serve_catalog demo_price_update (demo_store\<lparr>cart_items := [demo_line_sofa]\<rparr>)) =
     [demo_sofa\<lparr>price := 600\<rparr>]"
  by (simp add: demo_price_update_def update_sofa_def session_update_def Let_def
      sofa_int_cols_def in_int64_def demo_sofa_def)

lemma demo_update_quantity:
  "update_cart_item (demo_store\<lparr>cart_items := [demo_line_sofa]\<rparr>) 1 1 3 =
     Inr (demo_store\<lparr>cart_items := [demo_line_sofa\<lparr>quantity := 3\<rparr>]\<rparr>,
          \<lparr>r_id = Some 1, r_furniture_type = ''sofa'', r_furniture_id = 1, r_quantity = 3,
           r_name = JStr ''KIVIK'', r_price = JFloat 500, r_subtotal = JFloat 1500\<rparr>)"
proof -
  have n: "dict_get (furniture_snapshot (Sofa demo_sofa)) ''name'' (JStr ''Unknown'') = JStr ''KIVIK''"
    by (simp add: dict_get_def furniture_snapshot_def dict_update_def common_fields_def demo_sofa_def)
  have p: "dict_get (furniture_snapshot (Sofa demo_sofa)) ''price'' (JFloat 0) = JFloat 500"
    by (simp add: dict_get_def snapshot_price_of_record furniture_price_def)
  show ?thesis
    by (simp add: update_cart_item_def session_update_def Let_def item_summary_def n p
        demo_line_sofa_def item_int_cols_def)
qed

lemma demo_add_sofa_again:
  "add_item_to_cart (demo_store\<lparr>cart_items := [demo_line_sofa]\<rparr>) 1 ''sofa'' 1 (Some 2) =
       Inr (demo_store\<lparr>cart_items := [demo_line_sofa, demo_line_sofa_again]\<rparr>,
          \<lparr>r_id = Some 2, r_furniture_type = ''sofa'', r_furniture_id = 1, r_quantity = 2,
           r_name = JStr ''KIVIK'', r_price = JFloat 500, r_subtotal = JFloat 1000\<rparr>)"
proof -
  let ?s = "demo_store\<lparr>cart_items := [demo_line_sofa]\<rparr>"
  have c: "session_get cart_pk (carts ?s) 1 = Inr (Some demo_cart)" by simp
  have a: "lookup_furniture ?s ''sofa'' 1 = Inr (Some (Sofa demo_sofa))"
    by (simp add: lookup_furniture_def)
  have n: "dict_get (furniture_snapshot (Sofa demo_sofa)) ''name'' (JStr ''Unknown'') = JStr ''KIVIK''"
    by (simp add: dict_get_def furniture_snapshot_def dict_update_def common_fields_def demo_sofa_def)
  show ?thesis
    using add_item_to_cart_eq[OF c a, of "Some 2"]
    by (simp add: Let_def n furniture_price_def new_cart_item_def next_rowid_def
        demo_line_sofa_def demo_line_sofa_again_def)
qed

lemma demo_two_carts_sel [simp]:
  "carts demo_store_two_carts = [demo_cart, demo_cart_other]"
  "cart_items demo_store_two_carts = [demo_line_matress, demo_line_table, demo_line_other]"
  "cart_pk demo_cart_other = Some 2"
  "item_id demo_line_other = Some 3" "cart_id demo_line_other = 2"
  "quantity demo_line_other = 1"
  "furniture_data demo_line_other = furniture_snapshot (Sofa demo_sofa)"
  by (simp_all add: demo_store_two_carts_def demo_cart_other_def demo_line_other_def)

lemma demo_two_carts_wf: "items_wf demo_store_two_carts"
  by (simp add: items_wf_def snapshot_price_def snapshot_price_of_record)

lemma lookup_furniture_found_iff:
  assumes "in_int64 fid"
  shows "(\<exists>f. lookup_furniture s ftype fid = Inr (Some f)) \<longleftrightarrow> catalog_has s ftype fid"
  using assms find_row_Some_iff_ex[of sofa_id "sofas s" fid]
    find_row_Some_iff_ex[of table_id "dining_tables s" fid]
    find_row_Some_iff_ex[of matress_id "matresses s" fid]
  by (auto simp: lookup_furniture_def catalog_has_def list_ex_iff)

lemma lookup_furniture_missing:
  assumes "in_int64 fid" "ftype \<in> {''sofa'', ''dining_table'', ''matress''}"
    "\<not> catalog_has s ftype fid"
  shows "lookup_furniture s ftype fid = Inr None"
proof -
  have "\<not> (\<exists>f. lookup_furniture s ftype fid = Inr (Some f))"
    using lookup_furniture_found_iff[OF assms(1), of s ftype] assms(3) by simp
  moreover have "\<exists>x. lookup_furniture s ftype fid = Inr x"
    using assms(1,2) by (auto simp: lookup_furniture_def)
  ultimately show ?thesis by (cases "lookup_furniture s ftype fid") auto
qed

section \<open>Claims\<close>

subsection \<open>C3: the outcomes of adding an item\<close>

text \<open>
  C3 as stated names the tags \<^verbatim>\<open>"sofa"\<close>, \<^verbatim>\<open>"dining_table"\<close>, \<^verbatim>\<open>"mattress"\<close>. The handler
  compares with \<^verbatim>\<open>"matress"\<close>, the spelling of the class \<^verbatim>\<open>IkeaMatress\<close>, of the tag map in
  \<^verbatim>\<open>ShoppingCart.add_item\<close> and of the comment on \<^verbatim>\<open>CartItem.furniture_type\<close>. On an existing
  cart and an existing mattress, the tag \<^verbatim>\<open>"mattress"\<close> is answered with status 400.
\<close>

theorem add_item_tag_mattress_rejected:
  "add_item_to_cart demo_store 1 ''mattress'' 1 None = Inl (HTTPException 400)
   \<and> read_mattress demo_store 1 = Inr demo_matress
   \<and> read_cart demo_store 1 = Inr demo_cart"
  by (simp add: add_item_to_cart_def lookup_furniture_def read_mattress_def read_cart_def)

text \<open>
  C3, amended: on an existing cart, \<^verbatim>\<open>add_item_to_cart\<close> answers 400 exactly when the tag is
  none of \<^verbatim>\<open>"sofa"\<close>, \<^verbatim>\<open>"dining_table"\<close>, \<^verbatim>\<open>"matress"\<close>. With one of these tags and an id
  of 64 bits under which the table of that kind holds no record it answers 404. With a
  record of that kind under the id, and a quantity and a next item key of 64 bits, it
  succeeds and the table of line items has one more row, a new one, for this cart, tag,
  id and quantity.
\<close>

theorem add_item_to_cart_outcomes:
  assumes cart: "session_get cart_pk (carts s) cid = Inr (Some cart)"
  shows "(add_item_to_cart s cid ftype fid q = Inl (HTTPException 400)
            \<longleftrightarrow> ftype \<notin> {''sofa'', ''dining_table'', ''matress''})
       \<and> (ftype \<in> {''sofa'', ''dining_table'', ''matress''} \<and> in_int64 fid
            \<and> \<not> catalog_has s ftype fid
            \<longrightarrow> add_item_to_cart s cid ftype fid q = Inl (HTTPException 404))
       \<and> (catalog_has s ftype fid \<and> in_int64 fid
            \<and> in_int64 (case q of None \<Rightarrow> 1 | Some n \<Rightarrow> n)
            \<and> in_int64 (next_rowid item_id (cart_items s))
            \<longrightarrow> (\<exists>s' r. add_item_to_cart s cid ftype fid q = Inr (s', r)
               \<and> length (cart_items s') = Suc (length (cart_items s))
               \<and> (\<exists>item \<in> set (cart_items s').
                     item_id item = r_id r \<and> cart_id item = cid \<and> furniture_type item = ftype
                     \<and> furniture_id item = fid
                     \<and> quantity item = (case q of None \<Rightarrow> 1 | Some n \<Rightarrow> n)
                     \<and> item \<notin> set (cart_items s))))"
proof (intro conjI impI)
  show "add_item_to_cart s cid ftype fid q = Inl (HTTPException 400)
            \<longleftrightarrow> ftype \<notin> {''sofa'', ''dining_table'', ''matress''}"
  proof (cases "lookup_furniture s ftype fid")
    case (Inl e)
    then show ?thesis
      using lookup_furniture_400_iff[of s ftype fid]
      by (simp add: add_item_to_cart_def cart)
  next
    case (Inr fo)
    then have tag: "ftype \<in> {''sofa'', ''dining_table'', ''matress''}"
      using lookup_furniture_400_iff[of s ftype fid] by auto
    show ?thesis
    proof (cases fo)
      case None
      then show ?thesis using Inr tag by (simp add: add_item_to_cart_def cart)
    next
      case (Some f)
      then show ?thesis using Inr tag add_item_to_cart_eq[OF cart, of ftype fid f q]
        by (simp add: Let_def)
    qed
  qed
next
  assume "ftype \<in> {''sofa'', ''dining_table'', ''matress''} \<and> in_int64 fid
            \<and> \<not> catalog_has s ftype fid"
  then have "lookup_furniture s ftype fid = Inr None"
    using lookup_furniture_missing[of fid ftype s] by blast
  then show "add_item_to_cart s cid ftype fid q = Inl (HTTPException 404)"
    by (simp add: add_item_to_cart_def cart)
next
  let ?qty = "case q of None \<Rightarrow> 1 | Some n \<Rightarrow> n"
  assume h: "catalog_has s ftype fid \<and> in_int64 fid \<and> in_int64 ?qty
            \<and> in_int64 (next_rowid item_id (cart_items s))"
  then obtain f where f: "lookup_furniture s ftype fid = Inr (Some f)"
    using lookup_furniture_found_iff[of fid s ftype] by blast
  let ?item = "new_cart_item s cid ftype fid ?qty f"
  have "?item \<notin> set (cart_items s)"
    using next_rowid_fresh[of ?item "cart_items s" item_id] by auto
  then show "\<exists>s' r. add_item_to_cart s cid ftype fid q = Inr (s', r)
               \<and> length (cart_items s') = Suc (length (cart_items s))
               \<and> (\<exists>item \<in> set (cart_items s').
                     item_id item = r_id r \<and> cart_id item = cid \<and> furniture_type item = ftype
                     \<and> furniture_id item = fid \<and> quantity item = ?qty
                     \<and> item \<notin> set (cart_items s))"
    using add_item_to_cart_eq[OF cart f, of q] h
    by (simp add: Let_def)
qed

theorem add_item_to_cart_outcomes_witness:
  "session_get cart_pk (carts demo_store) 1 = Inr (Some demo_cart)
   \<and> add_item_to_cart demo_store 1 ''chair'' 1 None = Inl (HTTPException 400)
   \<and> \<not> catalog_has demo_store ''sofa'' 7
   \<and> add_item_to_cart demo_store 1 ''sofa'' 7 None = Inl (HTTPException 404)
   \<and> catalog_has demo_store ''matress'' 1
   \<and> in_int64 (next_rowid item_id (cart_items demo_store))
   \<and> add_item_to_cart demo_store 1 ''matress'' 1 None =
       Inr (demo_store\<lparr>cart_items := [demo_line_matress]\<rparr>,
          \<lparr>r_id = Some 1, r_furniture_type = ''matress'', r_furniture_id = 1, r_quantity = 1,
           r_name = JStr ''HAUGESUND'', r_price = JFloat 100, r_subtotal = JFloat 100\<rparr>)"
proof -
  have c: "session_get cart_pk (carts demo_store) 1 = Inr (Some demo_cart)" by simp
  have l: "\<not> catalog_has demo_store ''sofa'' 7"
    by (simp add: catalog_has_def)
  have m: "catalog_has demo_store ''matress'' 1"
    by (simp add: catalog_has_def)
  have n: "in_int64 (next_rowid item_id (cart_items demo_store))"
    by (simp add: next_rowid_def)
  show ?thesis
    using add_item_to_cart_outcomes[OF c, of "''chair''" 1 None]
      add_item_to_cart_outcomes[OF c, of "''sofa''" 7 None]
      add_item_to_cart_outcomes[OF c, of "''matress''" 1 None] l m n
      demo_store_filled_reached(1)
    by simp
qed

lemma get_items_by_cart_id:
  "cart_pk cart = Some cid \<Longrightarrow>
     get_items s cart = filter (\<lambda>item. cart_id item = cid) (cart_items s)"
  by (auto simp: get_items_def intro: filter_cong)

subsection \<open>C2: the totals\<close>

text \<open>
  C2: for every cart, \<^verbatim>\<open>calculate_total_price\<close> is the sum, over the rows of the table of
  line items whose \<^verbatim>\<open>cart_id\<close> is the cart's id, of the price in the row's snapshot times
  the row's quantity, and \<^verbatim>\<open>calculate_total_quantity\<close> is the sum of the quantities of
  these rows; when there is no such row both are zero (Python's \<^verbatim>\<open>sum\<close> of nothing is the
  integer 0). The route \<^verbatim>\<open>get_cart_total\<close> returns these two numbers. The store is one
  whose line items were all written by \<^verbatim>\<open>add_item\<close> (\<open>items_wf\<close>).
\<close>

theorem totals_are_sums_over_line_items:
  assumes "items_wf s" and "cart_pk cart = Some cid"
  shows "calculate_total_price s cart =
           Inr (if filter (\<lambda>item. cart_id item = cid) (cart_items s) = [] then JInt 0
                else JFloat (\<Sum>item\<leftarrow>filter (\<lambda>item. cart_id item = cid) (cart_items s).
                               the (snapshot_price item) * real_of_int (quantity item)))
       \<and> calculate_total_quantity s cart =
           (\<Sum>item\<leftarrow>filter (\<lambda>item. cart_id item = cid) (cart_items s). quantity item)
       \<and> (filter (\<lambda>item. cart_id item = cid) (cart_items s) = [] \<longrightarrow>
            calculate_total_price s cart = Inr (JInt 0) \<and> calculate_total_quantity s cart = 0)
       \<and> (session_get cart_pk (carts s) cid = Inr (Some cart) \<longrightarrow>
            get_cart_total s cid =
              Inr \<lparr>t_cart_id = cid, t_customer_name = customer_name cart,
                   t_total_price =
                     (if filter (\<lambda>item. cart_id item = cid) (cart_items s) = [] then JInt 0
                      else JFloat (\<Sum>item\<leftarrow>filter (\<lambda>item. cart_id item = cid) (cart_items s).
                               the (snapshot_price item) * real_of_int (quantity item))),
                   t_total_quantity =
                     (\<Sum>item\<leftarrow>filter (\<lambda>item. cart_id item = cid) (cart_items s).
                        quantity item)\<rparr>)"
proof -
  let ?lines = "filter (\<lambda>item. cart_id item = cid) (cart_items s)"
  have g: "get_items s cart = ?lines" by (rule get_items_by_cart_id[OF assms(2)])
  have p: "calculate_total_price s cart =
      Inr (if ?lines = [] then JInt 0
           else JFloat (\<Sum>item\<leftarrow>?lines. the (snapshot_price item) * real_of_int (quantity item)))"
    using calculate_total_price_wf[OF assms(1), of cart]
    by (simp add: g line_total_def[abs_def])
  have q: "calculate_total_quantity s cart = (\<Sum>item\<leftarrow>?lines. quantity item)"
    by (simp add: calculate_total_quantity_sum g)
  have e: "?lines = [] \<longrightarrow>
      calculate_total_price s cart = Inr (JInt 0) \<and> calculate_total_quantity s cart = 0"
    using p q by simp
  have t: "session_get cart_pk (carts s) cid = Inr (Some cart) \<longrightarrow>
      get_cart_total s cid =
        Inr \<lparr>t_cart_id = cid, t_customer_name = customer_name cart,
             t_total_price =
               (if ?lines = [] then JInt 0
                else JFloat (\<Sum>item\<leftarrow>?lines.
                         the (snapshot_price item) * real_of_int (quantity item))),
             t_total_quantity = (\<Sum>item\<leftarrow>?lines. quantity item)\<rparr>"
    by (simp add: get_cart_total_def p q)
  show ?thesis by (intro conjI p q e t)
qed

theorem totals_are_sums_over_line_items_witness:
  "items_wf demo_store_two_carts
   \<and> cart_pk demo_cart = Some 1 \<and> cart_pk demo_cart_other = Some 2
   \<and> map cart_id (cart_items demo_store_two_carts) = [1, 1, 2]
   \<and> calculate_total_price demo_store_two_carts demo_cart = Inr (JFloat 600)
   \<and> calculate_total_quantity demo_store_two_carts demo_cart = 3
   \<and> calculate_total_price demo_store_two_carts demo_cart_other = Inr (JFloat 500)
   \<and> calculate_total_quantity demo_store_two_carts demo_cart_other = 1
   \<and> get_cart_total demo_store_two_carts 1 =
       Inr \<lparr>t_cart_id = 1, t_customer_name = ''John Doe'', t_total_price = JFloat 600,
            t_total_quantity = 3\<rparr>
   \<and> items_wf demo_store
   \<and> calculate_total_price demo_store demo_cart = Inr (JInt 0)
   \<and> calculate_total_quantity demo_store demo_cart = 0"
proof -
  have e: "items_wf demo_store" by (simp add: items_wf_def)
  have o: "snapshot_price demo_line_other = Some 500"
    by (simp add: snapshot_price_def snapshot_price_of_record furniture_price_def)
  have n: "customer_name demo_cart = ''John Doe''" by (simp add: demo_cart_def)
  have g: "session_get cart_pk (carts demo_store_two_carts) 1 = Inr (Some demo_cart)"
    by simp
  show ?thesis
    using totals_are_sums_over_line_items[OF demo_two_carts_wf, of demo_cart 1]
      totals_are_sums_over_line_items[OF demo_two_carts_wf, of demo_cart_other 2]
      totals_are_sums_over_line_items[OF e, of demo_cart 1] demo_two_carts_wf e o n g
    by simp
qed

subsection \<open>C1: the price of a line is the price at the time it was added\<close>

text \<open>
  C1: when \<^verbatim>\<open>add_item_to_cart\<close> succeeds on a record \<open>f\<close>, the price it returns and the
  price in the snapshot of the new line item are the price of \<open>f\<close> at that time, and
  after any sequence of catalog requests (price updates and deletions among them) the
  total of the cart is still the old total plus that price times the quantity.
\<close>

theorem snapshot_price_survives_catalog_changes:
  assumes wf: "items_wf s"
    and cart: "session_get cart_pk (carts s) cid = Inr (Some cart)"
    and rcd: "lookup_furniture s ftype fid = Inr (Some f)"
    and add: "add_item_to_cart s cid ftype fid q = Inr (s1, r)"
  shows "r_price r = JFloat (furniture_price f)
       \<and> (\<exists>item \<in> set (get_items (serve_catalog_all reqs s1) cart).
             item_id item = r_id r \<and> snapshot_price item = Some (furniture_price f))
       \<and> calculate_total_price (serve_catalog_all reqs s1) cart =
           Inr (JFloat ((\<Sum>item\<leftarrow>get_items s cart.
                           the (snapshot_price item) * real_of_int (quantity item))
                        + furniture_price f * real_of_int (case q of None \<Rightarrow> 1 | Some n \<Rightarrow> n)))"
proof -
  let ?qty = "case q of None \<Rightarrow> 1 | Some n \<Rightarrow> n"
  let ?item = "new_cart_item s cid ftype fid ?qty f"
  let ?s2 = "serve_catalog_all reqs s1"
  note g = get_items_add[OF cart rcd add]
  have pk: "cart_pk cart = Some cid" using cart by (auto dest: session_get_SomeD)
  have nO: "f \<noteq> OtherObject" by (rule lookup_furniture_SomeD(3)[OF rcd])
  have items2: "cart_items ?s2 = cart_items s1" by (simp add: serve_catalog_all_cart_part)
  have gi: "get_items ?s2 cart = filter (\<lambda>item. Some (cart_id item) = cart_pk cart)
      (insert_row item_id (next_rowid item_id (cart_items s)) ?item (cart_items s))"
    by (simp add: get_items_def items2 g(1))
  have mem: "?item \<in> set (get_items ?s2 cart)"
    by (simp add: gi pk)
  have wf2: "items_wf ?s2"
    using items_wf_add_item_to_cart[OF wf add] by (simp add: items_wf_serve_catalog_all)
  have ne: "get_items ?s2 cart \<noteq> []" using mem by auto
  have "sum_list (map line_total (get_items ?s2 cart)) =
          line_total ?item + sum_list (map line_total (get_items s cart))"
    unfolding gi by (simp add: sum_list_filter_insert_row pk get_items_def)
  also have "line_total ?item = furniture_price f * real_of_int ?qty"
    by (simp add: line_total_def nO)
  finally have total: "sum_list (map line_total (get_items ?s2 cart)) =
      (\<Sum>item\<leftarrow>get_items s cart. the (snapshot_price item) * real_of_int (quantity item))
        + furniture_price f * real_of_int ?qty"
    by (simp add: line_total_def[abs_def])
  have "calculate_total_price ?s2 cart =
      Inr (JFloat (sum_list (map line_total (get_items ?s2 cart))))"
    using calculate_total_price_wf[OF wf2, of cart] ne by simp
  then have t: "calculate_total_price ?s2 cart =
      Inr (JFloat ((\<Sum>item\<leftarrow>get_items s cart. the (snapshot_price item) * real_of_int (quantity item))
        + furniture_price f * real_of_int ?qty))"
    by (simp only: total)
  have "item_id ?item = r_id r \<and> snapshot_price ?item = Some (furniture_price f)"
    by (simp add: g(3) nO)
  with mem have ex: "\<exists>item \<in> set (get_items ?s2 cart).
      item_id item = r_id r \<and> snapshot_price item = Some (furniture_price f)"
    by blast
  show ?thesis using g(4) ex t by blast
qed

theorem snapshot_price_survives_catalog_changes_witness:
  "items_wf demo_store
   \<and> session_get cart_pk (carts demo_store) 1 = Inr (Some demo_cart)
   \<and> lookup_furniture demo_store ''sofa'' 1 = Inr (Some (Sofa demo_sofa))
   \<and> price demo_sofa = 500
   \<and> read_sofa (serve_catalog_all [demo_price_update]
                  (demo_store\<lparr>cart_items := [demo_line_sofa]\<rparr>)) 1
       = Inr (demo_sofa\<lparr>price := 600\<rparr>)
   \<and> calculate_total_price
        (serve_catalog_all [demo_price_update] (demo_store\<lparr>cart_items := [demo_line_sofa]\<rparr>))
        demo_cart = Inr (JFloat 500)"
proof -
  have wf: "items_wf demo_store" by (simp add: items_wf_def)
  have a: "lookup_furniture demo_store ''sofa'' 1 = Inr (Some (Sofa demo_sofa))"
    by (simp add: lookup_furniture_def)
  have r: "read_sofa (serve_catalog_all [demo_price_update]
                  (demo_store\<lparr>cart_items := [demo_line_sofa]\<rparr>)) 1
       = Inr (demo_sofa\<lparr>price := 600\<rparr>)"
    by (simp add: serve_catalog_all_def read_sofa_def demo_price_update_served)
  show ?thesis
    using snapshot_price_survives_catalog_changes[OF wf demo_get(1) a demo_add_sofa,
        of "[demo_price_update]"] wf a r
    by (simp add: furniture_price_def)
qed

subsection \<open>C8: the quantity of a line item\<close>

text \<open>
  C8 as stated makes the stored quantity a positive integer. Neither
  \<^verbatim>\<open>add_item_to_cart\<close> nor \<^verbatim>\<open>update_cart_item\<close> checks the sign: a line item is created
  with quantity 0, and the quantity of an existing one is set to -3.
\<close>

theorem add_item_quantity_zero_stored:
  "add_item_to_cart demo_store 1 ''sofa'' 1 (Some 0) =
     Inr (demo_store\<lparr>cart_items := [demo_line_sofa\<lparr>quantity := 0\<rparr>]\<rparr>,
          \<lparr>r_id = Some 1, r_furniture_type = ''sofa'', r_furniture_id = 1, r_quantity = 0,
           r_name = JStr ''KIVIK'', r_price = JFloat 500, r_subtotal = JFloat 0\<rparr>)
   \<and> update_cart_item (demo_store\<lparr>cart_items := [demo_line_sofa]\<rparr>) 1 1 (- 3) =
     Inr (demo_store\<lparr>cart_items := [demo_line_sofa\<lparr>quantity := - 3\<rparr>]\<rparr>,
          \<lparr>r_id = Some 1, r_furniture_type = ''sofa'', r_furniture_id = 1, r_quantity = - 3,
           r_name = JStr ''KIVIK'', r_price = JFloat 500, r_subtotal = JFloat (- 1500)\<rparr>)"
proof -
  have a: "lookup_furniture demo_store ''sofa'' 1 = Inr (Some (Sofa demo_sofa))"
    by (simp add: lookup_furniture_def)
  have n: "dict_get (furniture_snapshot (Sofa demo_sofa)) ''name'' (JStr ''Unknown'') = JStr ''KIVIK''"
    by (simp add: dict_get_def furniture_snapshot_def dict_update_def common_fields_def demo_sofa_def)
  have p: "dict_get (furniture_snapshot (Sofa demo_sofa)) ''price'' (JFloat 0) = JFloat 500"
    by (simp add: dict_get_def snapshot_price_of_record furniture_price_def)
  have 1: "add_item_to_cart demo_store 1 ''sofa'' 1 (Some 0) =
     Inr (demo_store\<lparr>cart_items := [demo_line_sofa\<lparr>quantity := 0\<rparr>]\<rparr>,
          \<lparr>r_id = Some 1, r_furniture_type = ''sofa'', r_furniture_id = 1, r_quantity = 0,
           r_name = JStr ''KIVIK'', r_price = JFloat 500, r_subtotal = JFloat 0\<rparr>)"
    using add_item_to_cart_eq[OF demo_get(1) a, of "Some 0"]
    by (simp add: Let_def n furniture_price_def new_cart_item_def next_rowid_def in_int64_def
        demo_line_sofa_def)
  have 2: "update_cart_item (demo_store\<lparr>cart_items := [demo_line_sofa]\<rparr>) 1 1 (- 3) =
     Inr (demo_store\<lparr>cart_items := [demo_line_sofa\<lparr>quantity := - 3\<rparr>]\<rparr>,
          \<lparr>r_id = Some 1, r_furniture_type = ''sofa'', r_furniture_id = 1, r_quantity = - 3,
           r_name = JStr ''KIVIK'', r_price = JFloat 500, r_subtotal = JFloat (- 1500)\<rparr>)"
    by (simp add: update_cart_item_def session_update_def Let_def item_summary_def n p
        demo_line_sofa_def item_int_cols_def)
  show ?thesis using 1 2 by simp
qed

text \<open>
  C8, amended: the quantity stored by \<^verbatim>\<open>add_item_to_cart\<close> is the integer the caller gave,
  1 when the caller gave none, and the quantity stored by \<^verbatim>\<open>update_cart_item\<close> is the
  integer the caller gave; the responses report the same number. So the stored quantity
  is positive exactly when the caller's is.
\<close>

text \<open>
  C8, amended: the quantity stored by \<^verbatim>\<open>add_item_to_cart\<close> is the integer the caller gave,
  1 when the caller gave none, and the quantity stored by \<^verbatim>\<open>update_cart_item\<close> is the
  integer the caller gave; the responses report the same number. So the stored quantity
  is positive exactly when the caller's is.
\<close>

theorem stored_quantity_is_the_given_one:
  "(add_item_to_cart s cid ftype fid q = Inr (s1, r1) \<longrightarrow>
      r_quantity r1 = (case q of None \<Rightarrow> 1 | Some n \<Rightarrow> n)
      \<and> (\<exists>item \<in> set (cart_items s1). item_id item = r_id r1
            \<and> quantity item = (case q of None \<Rightarrow> 1 | Some n \<Rightarrow> n)))
   \<and> (update_cart_item s cid iid n = Inr (s2, r2) \<longrightarrow>
      r_quantity r2 = n
      \<and> (\<exists>item. session_get item_id (cart_items s2) iid = Inr (Some item)
            \<and> quantity item = n))"
proof (intro conjI impI)
  assume add: "add_item_to_cart s cid ftype fid q = Inr (s1, r1)"
  obtain cart f where c: "session_get cart_pk (carts s) cid = Inr (Some cart)"
    and f: "lookup_furniture s ftype fid = Inr (Some f)"
    using add_item_to_cart_InrD[OF add] by blast
  note g = get_items_add[OF c f add]
  show "r_quantity r1 = (case q of None \<Rightarrow> 1 | Some n \<Rightarrow> n)" by (rule g(5))
  show "\<exists>item \<in> set (cart_items s1). item_id item = r_id r1
            \<and> quantity item = (case q of None \<Rightarrow> 1 | Some n \<Rightarrow> n)"
    by (rule bexI[of _ "new_cart_item s cid ftype fid (case q of None \<Rightarrow> 1 | Some n \<Rightarrow> n) f"])
      (simp_all add: g(1) g(3))
next
  assume upd: "update_cart_item s cid iid n = Inr (s2, r2)"
  then obtain item where i: "session_get item_id (cart_items s) iid = Inr (Some item)"
    and s2: "s2 = s\<lparr>cart_items :=
                       map (\<lambda>x. if item_id x = Some iid then item\<lparr>quantity := n\<rparr> else x)
                         (cart_items s)\<rparr>"
    and r2: "item_summary (item\<lparr>quantity := n\<rparr>) = Inr r2"
    using update_cart_item_InrD[OF upd] by blast
  show "r_quantity r2 = n"
    using r2 by (auto simp: item_summary_def Let_def split: sum.splits)
  have pk: "item_id item = Some iid" and i64: "in_int64 iid"
    and fr: "find_row item_id (cart_items s) iid = Some item"
    using i by (auto simp: session_get_Inr_iff dest: find_row_SomeD)
  have "session_get item_id (cart_items s2) iid = Inr (Some (item\<lparr>quantity := n\<rparr>))"
    unfolding s2 using find_row_map_replace[OF fr, of "item\<lparr>quantity := n\<rparr>"] pk i64
    by simp
  then show "\<exists>item. session_get item_id (cart_items s2) iid = Inr (Some item)
      \<and> quantity item = n"
    by simp
qed

theorem stored_quantity_is_the_given_one_witness:
  "add_item_to_cart demo_store 1 ''sofa'' 1 None =
     Inr (demo_store\<lparr>cart_items := [demo_line_sofa]\<rparr>,
          \<lparr>r_id = Some 1, r_furniture_type = ''sofa'', r_furniture_id = 1, r_quantity = 1,
           r_name = JStr ''KIVIK'', r_price = JFloat 500, r_subtotal = JFloat 500\<rparr>)
   \<and> quantity demo_line_sofa = 1
   \<and> update_cart_item (demo_store\<lparr>cart_items := [demo_line_sofa]\<rparr>) 1 1 3 =
     Inr (demo_store\<lparr>cart_items := [demo_line_sofa\<lparr>quantity := 3\<rparr>]\<rparr>,
          \<lparr>r_id = Some 1, r_furniture_type = ''sofa'', r_furniture_id = 1, r_quantity = 3,
           r_name = JStr ''KIVIK'', r_price = JFloat 500, r_subtotal = JFloat 1500\<rparr>)
   \<and> (\<exists>item. session_get item_id [demo_line_sofa\<lparr>quantity := 3\<rparr>] 1 = Inr (Some item)
         \<and> quantity item = 3)"
  using stored_quantity_is_the_given_one[where s = demo_store and cid = 1 and ftype = "''sofa''"
      and fid = 1 and q = None and ?s1.0 = "demo_store\<lparr>cart_items := [demo_line_sofa]\<rparr>"
      and ?r1.0 = "\<lparr>r_id = Some 1, r_furniture_type = ''sofa'', r_furniture_id = 1,
           r_quantity = 1, r_name = JStr ''KIVIK'', r_price = JFloat 500,
           r_subtotal = JFloat 500\<rparr>"]
    stored_quantity_is_the_given_one[where s = "demo_store\<lparr>cart_items := [demo_line_sofa]\<rparr>"
      and cid = 1 and iid = 1 and n = 3
      and ?s2.0 = "demo_store\<lparr>cart_items := [demo_line_sofa\<lparr>quantity := 3\<rparr>]\<rparr>"
      and ?r2.0 = "\<lparr>r_id = Some 1, r_furniture_type = ''sofa'', r_furniture_id = 1,
           r_quantity = 3, r_name = JStr ''KIVIK'', r_price = JFloat 500,
           r_subtotal = JFloat 1500\<rparr>"]
    demo_add_sofa demo_update_quantity
  by (simp add: demo_line_sofa_def)

subsection \<open>C9: the same furniture twice\<close>

text \<open>
  C9: two successful calls of \<^verbatim>\<open>add_item_to_cart\<close> with the same cart, tag and id, with any
  catalog requests in between, leave two more line items in the cart, with different ids;
  each has the quantity of its own call and the snapshot of the record as it was at its
  own call. A second call right after a successful first one succeeds.
\<close>

theorem adding_twice_makes_two_line_items:
  assumes cart: "session_get cart_pk (carts s) cid = Inr (Some cart)"
    and f1: "lookup_furniture s ftype fid = Inr (Some f1)"
    and add1: "add_item_to_cart s cid ftype fid q1 = Inr (s1, r1)"
    and f2: "lookup_furniture (serve_catalog_all reqs s1) ftype fid = Inr (Some f2)"
    and add2: "add_item_to_cart (serve_catalog_all reqs s1) cid ftype fid q2 = Inr (s2, r2)"
  shows "r_id r1 \<noteq> r_id r2
       \<and> length (get_items s2 cart) = length (get_items s cart) + 2
       \<and> (\<exists>i1 \<in> set (get_items s2 cart). item_id i1 = r_id r1
             \<and> quantity i1 = (case q1 of None \<Rightarrow> 1 | Some n \<Rightarrow> n)
             \<and> furniture_data i1 = furniture_snapshot f1)
       \<and> (\<exists>i2 \<in> set (get_items s2 cart). item_id i2 = r_id r2
             \<and> quantity i2 = (case q2 of None \<Rightarrow> 1 | Some n \<Rightarrow> n)
             \<and> furniture_data i2 = furniture_snapshot f2)
       \<and> (\<exists>s2' r2'. add_item_to_cart s1 cid ftype fid q2 = Inr (s2', r2'))"
proof -
  let ?s1' = "serve_catalog_all reqs s1"
  let ?n1 = "case q1 of None \<Rightarrow> 1 | Some n \<Rightarrow> n"
  let ?n2 = "case q2 of None \<Rightarrow> 1 | Some n \<Rightarrow> n"
  let ?i1 = "new_cart_item s cid ftype fid ?n1 f1"
  let ?i2 = "new_cart_item ?s1' cid ftype fid ?n2 f2"
  let ?k1 = "next_rowid item_id (cart_items s)"
  let ?k2 = "next_rowid item_id (cart_items ?s1')"
  let ?P = "\<lambda>item. Some (cart_id item) = cart_pk cart"
  note g1 = get_items_add[OF cart f1 add1]
  have pk: "cart_pk cart = Some cid" using cart by (auto dest: session_get_SomeD)
  have items1': "cart_items ?s1' = insert_row item_id ?k1 ?i1 (cart_items s)"
    by (simp add: serve_catalog_all_cart_part g1(1))
  have cart1': "session_get cart_pk (carts ?s1') cid = Inr (Some cart)"
    by (simp add: serve_catalog_all_cart_part g1(2) cart)
  note g2 = get_items_add[OF cart1' f2 add2]
  have items2: "cart_items s2 = insert_row item_id ?k2 ?i2 (insert_row item_id ?k1 ?i1 (cart_items s))"
    by (simp only: g2(1) items1')
  have "?i1 \<in> set (cart_items ?s1')" by (simp add: items1')
  from next_rowid_fresh[OF this, of item_id] have ne: "?k1 \<noteq> ?k2" by simp
  have ids: "r_id r1 \<noteq> r_id r2" using ne by (simp add: g1(3) g2(3))
  have len: "length (get_items s2 cart) = length (get_items s cart) + 2"
    by (simp add: get_items_def items2 length_filter_insert_row pk)
  have m1: "?i1 \<in> set (get_items s2 cart)" by (simp add: get_items_def items2 pk)
  have m2: "?i2 \<in> set (get_items s2 cart)" by (simp add: get_items_def items2 pk)
  have e1: "\<exists>i1 \<in> set (get_items s2 cart). item_id i1 = r_id r1
             \<and> quantity i1 = ?n1 \<and> furniture_data i1 = furniture_snapshot f1"
    by (rule bexI[OF _ m1]) (simp add: g1(3))
  have e2: "\<exists>i2 \<in> set (get_items s2 cart). item_id i2 = r_id r2
             \<and> quantity i2 = ?n2 \<and> furniture_data i2 = furniture_snapshot f2"
    by (rule bexI[OF _ m2]) (simp add: g2(3))
  have c1: "session_get cart_pk (carts s1) cid = Inr (Some cart)" by (simp add: g1(2) cart)
  have l1: "lookup_furniture s1 ftype fid = Inr (Some f1)"
    using lookup_furniture_cong[OF g1(6) g1(7) g1(8), of ftype fid] f1 by simp
  have "in_int64 (next_rowid item_id (cart_items s1))"
    using g2(10) by (simp add: serve_catalog_all_cart_part)
  then have again: "\<exists>s2' r2'. add_item_to_cart s1 cid ftype fid q2 = Inr (s2', r2')"
    using add_item_to_cart_eq[OF c1 l1, of q2] g2(9) by (simp add: Let_def)
  show ?thesis using ids len e1 e2 again by blast
qed

theorem adding_twice_makes_two_line_items_witness:
  "session_get cart_pk (carts demo_store) 1 = Inr (Some demo_cart)
   \<and> lookup_furniture demo_store ''sofa'' 1 = Inr (Some (Sofa demo_sofa))
   \<and> add_item_to_cart demo_store 1 ''sofa'' 1 None =
       Inr (demo_store\<lparr>cart_items := [demo_line_sofa]\<rparr>,
          \<lparr>r_id = Some 1, r_furniture_type = ''sofa'', r_furniture_id = 1, r_quantity = 1,
           r_name = JStr ''KIVIK'', r_price = JFloat 500, r_subtotal = JFloat 500\<rparr>)
   \<and> add_item_to_cart (serve_catalog_all [] (demo_store\<lparr>cart_items := [demo_line_sofa]\<rparr>))
        1 ''sofa'' 1 (Some 2) =
       Inr (demo_store\<lparr>cart_items := [demo_line_sofa, demo_line_sofa_again]\<rparr>,
          \<lparr>r_id = Some 2, r_furniture_type = ''sofa'', r_furniture_id = 1, r_quantity = 2,
           r_name = JStr ''KIVIK'', r_price = JFloat 500, r_subtotal = JFloat 1000\<rparr>)
   \<and> length (get_items (demo_store\<lparr>cart_items := [demo_line_sofa, demo_line_sofa_again]\<rparr>)
         demo_cart) = 2"
proof -
  let ?s1 = "demo_store\<lparr>cart_items := [demo_line_sofa]\<rparr>"
  have a: "lookup_furniture demo_store ''sofa'' 1 = Inr (Some (Sofa demo_sofa))"
    by (simp add: lookup_furniture_def)
  have e: "serve_catalog_all [] ?s1 = ?s1" by (simp add: serve_catalog_all_def)
  have b: "lookup_furniture (serve_catalog_all [] ?s1) ''sofa'' 1 = Inr (Some (Sofa demo_sofa))"
    by (simp add: e lookup_furniture_def)
  have add2: "add_item_to_cart (serve_catalog_all [] ?s1) 1 ''sofa'' 1 (Some 2) =
       Inr (demo_store\<lparr>cart_items := [demo_line_sofa, demo_line_sofa_again]\<rparr>,
          \<lparr>r_id = Some 2, r_furniture_type = ''sofa'', r_furniture_id = 1, r_quantity = 2,
           r_name = JStr ''KIVIK'', r_price = JFloat 500, r_subtotal = JFloat 1000\<rparr>)"
    by (simp only: e demo_add_sofa_again)
  show ?thesis
    using adding_twice_makes_two_line_items[OF demo_get(1) a demo_add_sofa b add2]
      a demo_add_sofa add2
    by simp
qed

subsection \<open>C4: deleting a cart\<close>

text \<open>
  C4 as stated has \<^verbatim>\<open>delete_cart\<close> answer Not-Found whenever the cart does not exist. The
  handler looks the cart up by \<^verbatim>\<open>session.get\<close>, and an id outside 64 signed bits cannot
  be bound to the select: for the id \<open>2 ^ 63\<close>, under which there is no cart, the call
  ends in \<^verbatim>\<open>OverflowError\<close>, not in the 404.
\<close>

theorem delete_cart_out_of_range_not_404:
  "find_row cart_pk (carts demo_store_filled) (2 ^ 63) = None
   \<and> delete_cart demo_store_filled (2 ^ 63) = Inl OverflowError
   \<and> OverflowError \<noteq> HTTPException 404"
  by (simp add: delete_cart_def session_get_def in_int64_def)

text \<open>
  C4, amended: \<^verbatim>\<open>delete_cart\<close> answers 404 when the id is one of 64 signed bits and no
  cart has it, and ends in \<^verbatim>\<open>OverflowError\<close> when the id is outside that range. On a cart
  that exists it succeeds; afterwards no line item with that \<^verbatim>\<open>cart_id\<close> is in the store,
  no line item was created, the cart is gone, and the routes that list the cart's items or
  totals answer 404. With unique item keys the remaining line items are exactly those of
  the other carts.
\<close>

theorem delete_cart_removes_items_and_cart:
  "(session_get cart_pk (carts s) cid = Inr None \<longrightarrow> delete_cart s cid = Inl (HTTPException 404))
   \<and> (\<not> in_int64 cid \<longrightarrow> delete_cart s cid = Inl OverflowError)
   \<and> (\<forall>cart. session_get cart_pk (carts s) cid = Inr (Some cart) \<longrightarrow>
        (\<exists>s'. delete_cart s cid = Inr s'
           \<and> filter (\<lambda>item. cart_id item = cid) (cart_items s') = []
           \<and> get_items s' cart = []
           \<and> set (cart_items s') \<subseteq> set (cart_items s)
           \<and> (distinct (map item_id (cart_items s)) \<longrightarrow>
                cart_items s' = filter (\<lambda>item. cart_id item \<noteq> cid) (cart_items s))
           \<and> session_get cart_pk (carts s') cid = Inr None
           \<and> read_cart s' cid = Inl (HTTPException 404)
           \<and> get_cart_items s' cid = Inl (HTTPException 404)
           \<and> get_cart_total s' cid = Inl (HTTPException 404)))"
proof (intro conjI allI impI)
  assume "session_get cart_pk (carts s) cid = Inr None"
  then show "delete_cart s cid = Inl (HTTPException 404)"
    by (simp add: delete_cart_def)
next
  assume "\<not> in_int64 cid"
  then show "delete_cart s cid = Inl OverflowError"
    by (simp add: delete_cart_def session_get_def)
next
  fix cart assume cart: "session_get cart_pk (carts s) cid = Inr (Some cart)"
  let ?sel = "filter (\<lambda>item. cart_id item = cid) (cart_items s)"
  let ?rows = "filter (\<lambda>r. \<forall>x \<in> set ?sel. item_id r \<noteq> item_id x) (cart_items s)"
  let ?s' = "s\<lparr>cart_items := ?rows, carts := filter (\<lambda>r. cart_pk r \<noteq> Some cid) (carts s)\<rparr>"
  have pk: "cart_pk cart = Some cid" and c64: "in_int64 cid"
    using cart by (auto dest: session_get_SomeD)
  have d: "delete_cart s cid = Inr ?s'" by (rule delete_cart_Some[OF cart])
  have none: "filter (\<lambda>item. cart_id item = cid) ?rows = []"
    by (auto simp: filter_empty_conv)
  have gi: "get_items ?s' cart = []"
    using none by (simp add: get_items_def pk eq_commute)
  have sub: "set (cart_items ?s') \<subseteq> set (cart_items s)" by auto
  have exact: "distinct (map item_id (cart_items s)) \<longrightarrow>
                cart_items ?s' = filter (\<lambda>item. cart_id item \<noteq> cid) (cart_items s)"
  proof
    assume dist: "distinct (map item_id (cart_items s))"
    then have inj: "inj_on item_id (set (cart_items s))" by (simp add: distinct_map)
    have "?rows = filter (\<lambda>item. cart_id item \<noteq> cid) (cart_items s)"
    proof (rule filter_cong[OF refl])
      fix r assume r: "r \<in> set (cart_items s)"
      show "(\<forall>x \<in> set ?sel. item_id r \<noteq> item_id x) = (cart_id r \<noteq> cid)"
      proof
        assume "\<forall>x \<in> set ?sel. item_id r \<noteq> item_id x"
        then show "cart_id r \<noteq> cid" using r by auto
      next
        assume n: "cart_id r \<noteq> cid"
        show "\<forall>x \<in> set ?sel. item_id r \<noteq> item_id x"
        proof
          fix x assume "x \<in> set ?sel"
          then have "x \<in> set (cart_items s)" "x \<noteq> r" using n by auto
          then show "item_id r \<noteq> item_id x" using inj r by (auto dest: inj_onD)
        qed
      qed
    qed
    then show "cart_items ?s' = filter (\<lambda>item. cart_id item \<noteq> cid) (cart_items s)" by simp
  qed
  have gone: "session_get cart_pk (carts ?s') cid = Inr None"
    using c64 by (simp add: find_row_None_iff)
  have none': "filter (\<lambda>item. cart_id item = cid) (cart_items ?s') = []"
    using none by simp
  have r1: "read_cart ?s' cid = Inl (HTTPException 404)"
    using gone by (simp add: read_cart_def)
  have r2: "get_cart_items ?s' cid = Inl (HTTPException 404)"
    using gone by (simp add: get_cart_items_def)
  have r3: "get_cart_total ?s' cid = Inl (HTTPException 404)"
    using gone by (simp add: get_cart_total_def)
  show "\<exists>s'. delete_cart s cid = Inr s'
           \<and> filter (\<lambda>item. cart_id item = cid) (cart_items s') = []
           \<and> get_items s' cart = []
           \<and> set (cart_items s') \<subseteq> set (cart_items s)
           \<and> (distinct (map item_id (cart_items s)) \<longrightarrow>
                cart_items s' = filter (\<lambda>item. cart_id item \<noteq> cid) (cart_items s))
           \<and> session_get cart_pk (carts s') cid = Inr None
           \<and> read_cart s' cid = Inl (HTTPException 404)
           \<and> get_cart_items s' cid = Inl (HTTPException 404)
           \<and> get_cart_total s' cid = Inl (HTTPException 404)"
    by (intro exI[of _ ?s'] conjI d none' gi sub exact gone r1 r2 r3)
qed

theorem delete_cart_removes_items_and_cart_witness:
  "session_get cart_pk (carts demo_store_filled) 1 = Inr (Some demo_cart)
   \<and> distinct (map item_id (cart_items demo_store_filled))
   \<and> delete_cart demo_store_filled 1 = Inr (demo_store_filled\<lparr>cart_items := [], carts := []\<rparr>)
   \<and> get_cart_items (demo_store_filled\<lparr>cart_items := [], carts := []\<rparr>) 1
       = Inl (HTTPException 404)
   \<and> session_get cart_pk (carts demo_store_filled) 7 = Inr None
   \<and> delete_cart demo_store_filled 7 = Inl (HTTPException 404)
   \<and> \<not> in_int64 (2 ^ 63)
   \<and> delete_cart demo_store_filled (2 ^ 63) = Inl OverflowError"
proof -
  have d: "delete_cart demo_store_filled 1 = Inr (demo_store_filled\<lparr>cart_items := [], carts := []\<rparr>)"
    using delete_cart_Some[of demo_store_filled 1 demo_cart] by simp
  show ?thesis
    using delete_cart_removes_items_and_cart[of demo_store_filled 1]
      delete_cart_removes_items_and_cart[of demo_store_filled 7]
      delete_cart_removes_items_and_cart[of demo_store_filled "2 ^ 63"] d
    by (simp add: in_int64_def)
qed

section \<open>Listing with filters\<close>

lemma filter_opt:
  "(case x of None \<Rightarrow> rows | Some v \<Rightarrow> filter (P v) rows) =
     filter (\<lambda>r. case x of None \<Rightarrow> True | Some v \<Rightarrow> P v r) rows"
  by (cases x) simp_all

lemma filter_opt_text:
  "(case x of None \<Rightarrow> rows | Some v \<Rightarrow> if v \<noteq> [] then filter (P v) rows else rows) =
     filter (\<lambda>r. case x of None \<Rightarrow> True | Some v \<Rightarrow> v = [] \<or> P v r) rows"
  by (cases x) simp_all

lemma read_sofas_filter:
  "read_sofas s skip limit m lo hi hs =
     session_exec_page skip limit (filter (sofa_matches m lo hi hs) (sofas s))"
  unfolding read_sofas_def Let_def filter_opt filter_opt_text filter_filter sofa_matches_def
  by (rule arg_cong[where f = "session_exec_page skip limit"], rule filter_cong) auto

lemma read_dining_tables_filter:
  "read_dining_tables s skip limit m lo hi sh ex =
     session_exec_page skip limit (filter (table_matches m lo hi sh ex) (dining_tables s))"
  unfolding read_dining_tables_def Let_def filter_opt filter_opt_text filter_filter
    table_matches_def
  by (rule arg_cong[where f = "session_exec_page skip limit"], rule filter_cong) auto

lemma read_mattresses_filter:
  "read_mattresses s skip limit m lo hi sz fi =
     session_exec_page skip limit (filter (matress_matches m lo hi sz fi) (matresses s))"
  unfolding read_mattresses_def Let_def filter_opt filter_opt_text filter_filter
    matress_matches_def
  by (rule arg_cong[where f = "session_exec_page skip limit"], rule filter_cong) auto

lemma demo_catalog_sel [simp]:
  "sofas demo_catalog = [demo_sofa, demo_sofa_cheap, demo_sofa_cotton]"
  by (simp add: demo_catalog_def)

lemma demo_sofas_fields [simp]:
  "material demo_sofa = ''Leather''" "material demo_sofa_cheap = ''Leather''"
  "material demo_sofa_cotton = ''Cotton''" "price demo_sofa_cheap = 50"
  "price demo_sofa_cotton = 300" "price demo_sofa_negative = - 1"
  by (simp_all add: demo_sofa_def demo_sofa_cheap_def demo_sofa_cotton_def
      demo_sofa_negative_def)

subsection \<open>C6: the filters of a list call\<close>




subsection \<open>C10: the empty material and the price bound zero\<close>

text \<open>
  C10: in each of the three list calls, the material filter supplied as the empty string
  gives the result of the call without a material filter; the bound \<open>min_price = 0\<close> is
  applied, the call gives what the call without \<open>min_price\<close> gives on the table restricted
  to the records with \<open>0 \<le> price\<close>, and likewise \<open>max_price = 0\<close> with \<open>price \<le> 0\<close>.
\<close>

theorem empty_material_is_omitted_zero_bound_is_applied:
  "read_sofas s skip limit (Some []) lo hi hs = read_sofas s skip limit None lo hi hs
   \<and> read_dining_tables s skip limit (Some []) lo hi sh ex
       = read_dining_tables s skip limit None lo hi sh ex
   \<and> read_mattresses s skip limit (Some []) lo hi sz fi
       = read_mattresses s skip limit None lo hi sz fi
   \<and> read_sofas s skip limit m (Some 0) hi hs
       = read_sofas (s\<lparr>sofas := filter (\<lambda>r. 0 \<le> price r) (sofas s)\<rparr>) skip limit m None hi hs
   \<and> read_sofas s skip limit m lo (Some 0) hs
       = read_sofas (s\<lparr>sofas := filter (\<lambda>r. price r \<le> 0) (sofas s)\<rparr>) skip limit m lo None hs
   \<and> read_dining_tables s skip limit m (Some 0) hi sh ex
       = read_dining_tables (s\<lparr>dining_tables := filter (\<lambda>r. 0 \<le> price r) (dining_tables s)\<rparr>)
           skip limit m None hi sh ex
   \<and> read_dining_tables s skip limit m lo (Some 0) sh ex
       = read_dining_tables (s\<lparr>dining_tables := filter (\<lambda>r. price r \<le> 0) (dining_tables s)\<rparr>)
           skip limit m lo None sh ex
   \<and> read_mattresses s skip limit m (Some 0) hi sz fi
       = read_mattresses (s\<lparr>matresses := filter (\<lambda>r. 0 \<le> price r) (matresses s)\<rparr>)
           skip limit m None hi sz fi
   \<and> read_mattresses s skip limit m lo (Some 0) sz fi
       = read_mattresses (s\<lparr>matresses := filter (\<lambda>r. price r \<le> 0) (matresses s)\<rparr>)
           skip limit m lo None sz fi"
  unfolding read_sofas_filter read_dining_tables_filter read_mattresses_filter
  by (intro conjI arg_cong[where f = "session_exec_page skip limit"])
    (auto simp: sofa_matches_def table_matches_def matress_matches_def
      intro!: filter_cong)

theorem empty_material_is_omitted_zero_bound_is_applied_witness:
  "read_sofas demo_catalog 0 100 (Some []) None None None
     = Inr [demo_sofa, demo_sofa_cheap, demo_sofa_cotton]
   \<and> read_sofas demo_catalog 0 100 None None None None
     = Inr [demo_sofa, demo_sofa_cheap, demo_sofa_cotton]
   \<and> read_sofas (empty_store\<lparr>sofas := [demo_sofa_negative]\<rparr>) 0 100 None (Some 0) None None
     = Inr []
   \<and> read_sofas (empty_store\<lparr>sofas := [demo_sofa_negative]\<rparr>) 0 100 None None None None
     = Inr [demo_sofa_negative]
   \<and> read_sofas demo_catalog 0 100 None None (Some 0) None = Inr []"
  using empty_material_is_omitted_zero_bound_is_applied[of demo_catalog 0 100 None None None]
    empty_material_is_omitted_zero_bound_is_applied[of
      "empty_store\<lparr>sofas := [demo_sofa_negative]\<rparr>" 0 100 None None None]
  by (simp add: read_sofas_def session_exec_page_def paginate_def Let_def)

section \<open>Partial updates\<close>

lemma fold_setattr_generic:
  assumes step: "\<And>a obj k. getf (setf a obj) k = (if k = key a then Some a else getf obj k)"
    and dist: "distinct (map key d)"
  shows "getf (fold setf d obj) k =
           (case find (\<lambda>a. key a = k) d of Some a \<Rightarrow> Some a | None \<Rightarrow> getf obj k)"
  using dist
proof (induction d arbitrary: obj)
  case Nil
  then show ?case by simp
next
  case (Cons a d)
  have notin: "key a \<notin> key ` set d" using Cons.prems by simp
  have ih: "getf (fold setf d (setf a obj)) k =
      (case find (\<lambda>a. key a = k) d of Some a \<Rightarrow> Some a | None \<Rightarrow> getf (setf a obj) k)"
    using Cons.IH[of "setf a obj"] Cons.prems by simp
  show ?case
  proof (cases "key a = k")
    case True
    then have "find (\<lambda>a. key a = k) d = None"
      using notin by (force simp: find_None_iff image_iff)
    then show ?thesis using True ih by (simp add: step)
  next
    case False
    then show ?thesis using ih by (auto simp: step split: option.splits)
  qed
qed

lemma find_key_member:
  "distinct (map key d) \<Longrightarrow> a \<in> set d \<Longrightarrow> find (\<lambda>b. key b = key a) d = Some a"
  by (induction d) (auto simp: image_iff)

lemma find_key_absent:
  "k \<notin> key ` set d \<Longrightarrow> find (\<lambda>b. key b = k) d = None"
  by (auto simp: find_None_iff)

lemma getattr_setattr_furniture:
  "getattr_furniture (setattr_furniture a obj) k =
     (if k = furniture_attr_key a then Some a else getattr_furniture obj k)"
  by (cases a) (simp_all add: getattr_furniture_def)

lemma furniture_attr_key_not_special [simp]:
  "furniture_attr_key a \<noteq> ''id''" "furniture_attr_key a \<noteq> ''seats''"
  "furniture_attr_key a \<noteq> ''has_sleeper''" "furniture_attr_key a \<noteq> ''fabric_type''"
  "furniture_attr_key a \<noteq> ''shape''" "furniture_attr_key a \<noteq> ''extendable''"
  "furniture_attr_key a \<noteq> ''size''" "furniture_attr_key a \<noteq> ''firmness''"
  "furniture_attr_key a \<noteq> ''thickness_cm''"
  by (cases a; simp)+

lemma getattr_furniture_special [simp]:
  "getattr_furniture obj ''id'' = None" "getattr_furniture obj ''seats'' = None"
  "getattr_furniture obj ''has_sleeper'' = None" "getattr_furniture obj ''fabric_type'' = None"
  "getattr_furniture obj ''shape'' = None" "getattr_furniture obj ''extendable'' = None"
  "getattr_furniture obj ''size'' = None" "getattr_furniture obj ''firmness'' = None"
  "getattr_furniture obj ''thickness_cm'' = None"
  by (simp_all add: getattr_furniture_def)

lemma getattr_furniture_more_update [simp]:
  "getattr_furniture (obj\<lparr>sofa_id := v1\<rparr>) k = getattr_furniture obj k"
  "getattr_furniture (obj\<lparr>sofa_seats := v2\<rparr>) k = getattr_furniture obj k"
  "getattr_furniture (obj\<lparr>has_sleeper := v3\<rparr>) k = getattr_furniture obj k"
  "getattr_furniture (obj\<lparr>fabric_type := v4\<rparr>) k = getattr_furniture obj k"
  "getattr_furniture (tobj\<lparr>table_id := v1\<rparr>) k = getattr_furniture tobj k"
  "getattr_furniture (tobj\<lparr>table_seats := v2\<rparr>) k = getattr_furniture tobj k"
  "getattr_furniture (tobj\<lparr>shape := v5\<rparr>) k = getattr_furniture tobj k"
  "getattr_furniture (tobj\<lparr>extendable := v3\<rparr>) k = getattr_furniture tobj k"
  "getattr_furniture (mobj\<lparr>matress_id := v1\<rparr>) k = getattr_furniture mobj k"
  "getattr_furniture (mobj\<lparr>matress_size := v4\<rparr>) k = getattr_furniture mobj k"
  "getattr_furniture (mobj\<lparr>firmness := v5\<rparr>) k = getattr_furniture mobj k"
  "getattr_furniture (mobj\<lparr>thickness_cm := v6\<rparr>) k = getattr_furniture mobj k"
  by (simp_all add: getattr_furniture_def)

lemma setattr_furniture_more [simp]:
  "sofa_id (setattr_furniture a obj) = sofa_id obj"
  "sofa_seats (setattr_furniture a obj) = sofa_seats obj"
  "has_sleeper (setattr_furniture a obj) = has_sleeper obj"
  "fabric_type (setattr_furniture a obj) = fabric_type obj"
  "table_id (setattr_furniture a tobj) = table_id tobj"
  "table_seats (setattr_furniture a tobj) = table_seats tobj"
  "shape (setattr_furniture a tobj) = shape tobj"
  "extendable (setattr_furniture a tobj) = extendable tobj"
  "matress_id (setattr_furniture a mobj) = matress_id mobj"
  "matress_size (setattr_furniture a mobj) = matress_size mobj"
  "firmness (setattr_furniture a mobj) = firmness mobj"
  "thickness_cm (setattr_furniture a mobj) = thickness_cm mobj"
  by (cases a; simp)+

lemma getattr_setattr_sofa:
  "getattr_sofa (setattr_sofa a obj) k =
     (if k = sofa_attr_key a then Some a else getattr_sofa obj k)"
  by (cases a) (auto simp: getattr_sofa_def getattr_setattr_furniture)

lemma getattr_setattr_table:
  "getattr_table (setattr_table a obj) k =
     (if k = table_attr_key a then Some a else getattr_table obj k)"
  by (cases a) (auto simp: getattr_table_def getattr_setattr_furniture)

lemma getattr_setattr_matress:
  "getattr_matress (setattr_matress a obj) k =
     (if k = matress_attr_key a then Some a else getattr_matress obj k)"
  by (cases a) (auto simp: getattr_matress_def getattr_setattr_furniture)

lemma session_update_InrD:
  assumes upd: "session_update pk cols rows k obj = Inr rows'"
    and old: "find_row pk rows k = Some old" and k64: "in_int64 k"
  shows "\<exists>k'. pk obj = Some k' \<and> in_int64 k' \<and> find_row pk rows' k' = Some obj"
proof -
  from upd obtain k' where pk: "pk obj = Some k'"
    by (auto simp: session_update_def split: if_splits option.splits)
  show ?thesis
  proof (cases "k' = k")
    case True
    then have "rows' = map (\<lambda>r. if pk r = Some k then obj else r) rows"
      using upd pk by (auto simp: session_update_def split: if_splits)
    then show ?thesis
      using find_row_map_replace[OF old, of obj] pk True k64 by auto
  next
    case False
    then have r: "rows' = insert_row pk k' obj (filter (\<lambda>r. pk r \<noteq> Some k) rows)"
      and free: "find_row pk rows k' = None" and k64': "in_int64 k'"
      using upd pk by (auto simp: session_update_def split: if_splits)
    have "\<forall>r \<in> set (filter (\<lambda>r. pk r \<noteq> Some k) rows). pk r \<noteq> Some k'"
      using free by (auto simp: find_row_None_iff)
    then show ?thesis
      using find_row_insert_row_new[of "filter (\<lambda>r. pk r \<noteq> Some k) rows" pk k' obj] pk k64' r
      by auto
  qed
qed

lemma session_update_same_key:
  "pk obj = Some k \<Longrightarrow> list_all in_int64 (cols obj) \<Longrightarrow>
     session_update pk cols rows k obj = Inr (map (\<lambda>r. if pk r = Some k then obj else r) rows)"
  by (simp add: session_update_def)

lemma getattr_fold_sofa:
  "distinct (map sofa_attr_key d) \<Longrightarrow>
     getattr_sofa (fold setattr_sofa d obj) k =
       (case find (\<lambda>a. sofa_attr_key a = k) d of Some a \<Rightarrow> Some a | None \<Rightarrow> getattr_sofa obj k)"
  by (rule fold_setattr_generic) (simp_all add: getattr_setattr_sofa)

lemma getattr_fold_table:
  "distinct (map table_attr_key d) \<Longrightarrow>
     getattr_table (fold setattr_table d obj) k =
       (case find (\<lambda>a. table_attr_key a = k) d of Some a \<Rightarrow> Some a
        | None \<Rightarrow> getattr_table obj k)"
  by (rule fold_setattr_generic) (simp_all add: getattr_setattr_table)

lemma getattr_fold_matress:
  "distinct (map matress_attr_key d) \<Longrightarrow>
     getattr_matress (fold setattr_matress d obj) k =
       (case find (\<lambda>a. matress_attr_key a = k) d of Some a \<Rightarrow> Some a
        | None \<Rightarrow> getattr_matress obj k)"
  by (rule fold_setattr_generic) (simp_all add: getattr_setattr_matress)

lemma update_sofa_patch:
  assumes old: "session_get sofa_id (sofas s) sid = Inr (Some old)"
    and dist: "distinct (map sofa_attr_key d)"
  shows "(\<forall>s' r. update_sofa s sid d = Inr (s', r) \<longrightarrow>
            (\<forall>a \<in> set d. getattr_sofa r (sofa_attr_key a) = Some a)
          \<and> (\<forall>k. k \<notin> sofa_attr_key ` set d \<longrightarrow> getattr_sofa r k = getattr_sofa old k)
          \<and> (\<exists>k'. sofa_id r = Some k' \<and> read_sofa s' k' = Inr r))
       \<and> (''id'' \<notin> sofa_attr_key ` set d
            \<and> list_all in_int64 (sofa_int_cols (fold setattr_sofa d old))
          \<longrightarrow> (\<exists>s' r. update_sofa s sid d = Inr (s', r)))"
proof -
  let ?r = "fold setattr_sofa d old"
  have fr: "find_row sofa_id (sofas s) sid = Some old" and s64: "in_int64 sid"
    using old by (auto simp: session_get_Inr_iff)
  have set_fields: "\<forall>a \<in> set d. getattr_sofa ?r (sofa_attr_key a) = Some a"
    using dist by (auto simp: getattr_fold_sofa find_key_member)
  have kept: "\<forall>k. k \<notin> sofa_attr_key ` set d \<longrightarrow> getattr_sofa ?r k = getattr_sofa old k"
    using dist by (auto simp: getattr_fold_sofa find_key_absent)
  have A: "\<forall>s' r. update_sofa s sid d = Inr (s', r) \<longrightarrow>
            (\<forall>a \<in> set d. getattr_sofa r (sofa_attr_key a) = Some a)
          \<and> (\<forall>k. k \<notin> sofa_attr_key ` set d \<longrightarrow> getattr_sofa r k = getattr_sofa old k)
          \<and> (\<exists>k'. sofa_id r = Some k' \<and> read_sofa s' k' = Inr r)"
  proof (intro allI impI)
    fix s' r assume u: "update_sofa s sid d = Inr (s', r)"
    then obtain rows' where r: "r = ?r" and s': "s' = s\<lparr>sofas := rows'\<rparr>"
      and su: "session_update sofa_id sofa_int_cols (sofas s) sid ?r = Inr rows'"
      by (auto simp: update_sofa_def old Let_def split: sum.splits)
    have p0: "\<forall>a \<in> set d. getattr_sofa r (sofa_attr_key a) = Some a"
      using set_fields r by simp
    have p1: "\<forall>k. k \<notin> sofa_attr_key ` set d \<longrightarrow> getattr_sofa r k = getattr_sofa old k"
      using kept r by simp
    have p2: "\<exists>k'. sofa_id r = Some k' \<and> read_sofa s' k' = Inr r"
      using session_update_InrD[OF su fr s64] r s' by (auto simp: read_sofa_def)
    show "(\<forall>a \<in> set d. getattr_sofa r (sofa_attr_key a) = Some a)
          \<and> (\<forall>k. k \<notin> sofa_attr_key ` set d \<longrightarrow> getattr_sofa r k = getattr_sofa old k)
          \<and> (\<exists>k'. sofa_id r = Some k' \<and> read_sofa s' k' = Inr r)"
      using p0 p1 p2 by blast
  qed
  have B: "''id'' \<notin> sofa_attr_key ` set d
            \<and> list_all in_int64 (sofa_int_cols (fold setattr_sofa d old))
          \<longrightarrow> (\<exists>s' r. update_sofa s sid d = Inr (s', r))"
  proof
    assume h: "''id'' \<notin> sofa_attr_key ` set d
            \<and> list_all in_int64 (sofa_int_cols (fold setattr_sofa d old))"
    then have "getattr_sofa ?r ''id'' = getattr_sofa old ''id''" using kept by blast
    then have "sofa_id ?r = Some sid"
      using fr by (auto simp: getattr_sofa_def dest: find_row_SomeD)
    then show "\<exists>s' r. update_sofa s sid d = Inr (s', r)"
      using h by (simp add: update_sofa_def old Let_def session_update_same_key)
  qed
  show ?thesis using A B by blast
qed

lemma update_dining_table_patch:
  assumes old: "session_get table_id (dining_tables s) tid = Inr (Some old)"
    and dist: "distinct (map table_attr_key d)"
  shows "(\<forall>s' r. update_dining_table s tid d = Inr (s', r) \<longrightarrow>
            (\<forall>a \<in> set d. getattr_table r (table_attr_key a) = Some a)
          \<and> (\<forall>k. k \<notin> table_attr_key ` set d \<longrightarrow> getattr_table r k = getattr_table old k)
          \<and> (\<exists>k'. table_id r = Some k' \<and> read_dining_table s' k' = Inr r))
       \<and> (''id'' \<notin> table_attr_key ` set d
            \<and> list_all in_int64 (table_int_cols (fold setattr_table d old))
          \<longrightarrow> (\<exists>s' r. update_dining_table s tid d = Inr (s', r)))"
proof -
  let ?r = "fold setattr_table d old"
  have fr: "find_row table_id (dining_tables s) tid = Some old" and s64: "in_int64 tid"
    using old by (auto simp: session_get_Inr_iff)
  have set_fields: "\<forall>a \<in> set d. getattr_table ?r (table_attr_key a) = Some a"
    using dist by (auto simp: getattr_fold_table find_key_member)
  have kept: "\<forall>k. k \<notin> table_attr_key ` set d \<longrightarrow> getattr_table ?r k = getattr_table old k"
    using dist by (auto simp: getattr_fold_table find_key_absent)
  have A: "\<forall>s' r. update_dining_table s tid d = Inr (s', r) \<longrightarrow>
            (\<forall>a \<in> set d. getattr_table r (table_attr_key a) = Some a)
          \<and> (\<forall>k. k \<notin> table_attr_key ` set d \<longrightarrow> getattr_table r k = getattr_table old k)
          \<and> (\<exists>k'. table_id r = Some k' \<and> read_dining_table s' k' = Inr r)"
  proof (intro allI impI)
    fix s' r assume u: "update_dining_table s tid d = Inr (s', r)"
    then obtain rows' where r: "r = ?r" and s': "s' = s\<lparr>dining_tables := rows'\<rparr>"
      and su: "session_update table_id table_int_cols (dining_tables s) tid ?r = Inr rows'"
      by (auto simp: update_dining_table_def old Let_def split: sum.splits)
    have p0: "\<forall>a \<in> set d. getattr_table r (table_attr_key a) = Some a"
      using set_fields r by simp
    have p1: "\<forall>k. k \<notin> table_attr_key ` set d \<longrightarrow> getattr_table r k = getattr_table old k"
      using kept r by simp
    have p2: "\<exists>k'. table_id r = Some k' \<and> read_dining_table s' k' = Inr r"
      using session_update_InrD[OF su fr s64] r s' by (auto simp: read_dining_table_def)
    show "(\<forall>a \<in> set d. getattr_table r (table_attr_key a) = Some a)
          \<and> (\<forall>k. k \<notin> table_attr_key ` set d \<longrightarrow> getattr_table r k = getattr_table old k)
          \<and> (\<exists>k'. table_id r = Some k' \<and> read_dining_table s' k' = Inr r)"
      using p0 p1 p2 by blast
  qed
  have B: "''id'' \<notin> table_attr_key ` set d
            \<and> list_all in_int64 (table_int_cols (fold setattr_table d old))
          \<longrightarrow> (\<exists>s' r. update_dining_table s tid d = Inr (s', r))"
  proof
    assume h: "''id'' \<notin> table_attr_key ` set d
            \<and> list_all in_int64 (table_int_cols (fold setattr_table d old))"
    then have "getattr_table ?r ''id'' = getattr_table old ''id''" using kept by blast
    then have "table_id ?r = Some tid"
      using fr by (auto simp: getattr_table_def dest: find_row_SomeD)
    then show "\<exists>s' r. update_dining_table s tid d = Inr (s', r)"
      using h by (simp add: update_dining_table_def old Let_def session_update_same_key)
  qed
  show ?thesis using A B by blast
qed

lemma update_mattress_patch:
  assumes old: "session_get matress_id (matresses s) mid = Inr (Some old)"
    and dist: "distinct (map matress_attr_key d)"
  shows "(\<forall>s' r. update_mattress s mid d = Inr (s', r) \<longrightarrow>
            (\<forall>a \<in> set d. getattr_matress r (matress_attr_key a) = Some a)
          \<and> (\<forall>k. k \<notin> matress_attr_key ` set d \<longrightarrow> getattr_matress r k = getattr_matress old k)
          \<and> (\<exists>k'. matress_id r = Some k' \<and> read_mattress s' k' = Inr r))
       \<and> (''id'' \<notin> matress_attr_key ` set d
            \<and> list_all in_int64 (matress_int_cols (fold setattr_matress d old))
          \<longrightarrow> (\<exists>s' r. update_mattress s mid d = Inr (s', r)))"
proof -
  let ?r = "fold setattr_matress d old"
  have fr: "find_row matress_id (matresses s) mid = Some old" and s64: "in_int64 mid"
    using old by (auto simp: session_get_Inr_iff)
  have set_fields: "\<forall>a \<in> set d. getattr_matress ?r (matress_attr_key a) = Some a"
    using dist by (auto simp: getattr_fold_matress find_key_member)
  have kept: "\<forall>k. k \<notin> matress_attr_key ` set d \<longrightarrow> getattr_matress ?r k = getattr_matress old k"
    using dist by (auto simp: getattr_fold_matress find_key_absent)
  have A: "\<forall>s' r. update_mattress s mid d = Inr (s', r) \<longrightarrow>
            (\<forall>a \<in> set d. getattr_matress r (matress_attr_key a) = Some a)
          \<and> (\<forall>k. k \<notin> matress_attr_key ` set d \<longrightarrow> getattr_matress r k = getattr_matress old k)
          \<and> (\<exists>k'. matress_id r = Some k' \<and> read_mattress s' k' = Inr r)"
  proof (intro allI impI)
    fix s' r assume u: "update_mattress s mid d = Inr (s', r)"
    then obtain rows' where r: "r = ?r" and s': "s' = s\<lparr>matresses := rows'\<rparr>"
      and su: "session_update matress_id matress_int_cols (matresses s) mid ?r = Inr rows'"
      by (auto simp: update_mattress_def old Let_def split: sum.splits)
    have p0: "\<forall>a \<in> set d. getattr_matress r (matress_attr_key a) = Some a"
      using set_fields r by simp
    have p1: "\<forall>k. k \<notin> matress_attr_key ` set d \<longrightarrow> getattr_matress r k = getattr_matress old k"
      using kept r by simp
    have p2: "\<exists>k'. matress_id r = Some k' \<and> read_mattress s' k' = Inr r"
      using session_update_InrD[OF su fr s64] r s' by (auto simp: read_mattress_def)
    show "(\<forall>a \<in> set d. getattr_matress r (matress_attr_key a) = Some a)
          \<and> (\<forall>k. k \<notin> matress_attr_key ` set d \<longrightarrow> getattr_matress r k = getattr_matress old k)
          \<and> (\<exists>k'. matress_id r = Some k' \<and> read_mattress s' k' = Inr r)"
      using p0 p1 p2 by blast
  qed
  have B: "''id'' \<notin> matress_attr_key ` set d
            \<and> list_all in_int64 (matress_int_cols (fold setattr_matress d old))
          \<longrightarrow> (\<exists>s' r. update_mattress s mid d = Inr (s', r))"
  proof
    assume h: "''id'' \<notin> matress_attr_key ` set d
            \<and> list_all in_int64 (matress_int_cols (fold setattr_matress d old))"
    then have "getattr_matress ?r ''id'' = getattr_matress old ''id''" using kept by blast
    then have "matress_id ?r = Some mid"
      using fr by (auto simp: getattr_matress_def dest: find_row_SomeD)
    then show "\<exists>s' r. update_mattress s mid d = Inr (s', r)"
      using h by (simp add: update_mattress_def old Let_def session_update_same_key)
  qed
  show ?thesis using A B by blast
qed

subsection \<open>C5: an update changes the fields of its payload and no other\<close>

text \<open>
  C5: for each of the three kinds, when the record exists and the payload (a dictionary:
  every key at most once) is applied by \<^verbatim>\<open>update\<close>, a successful update returns and stores
  a record that has, for every entry of the payload, the entry's value in the entry's
  field, and in every other field the value the record had before. The update succeeds
  whenever the payload does not set the key \<^verbatim>\<open>id\<close> and the integers of the result fit 64
  bits.
\<close>

theorem update_changes_exactly_the_payload_fields:
  "(session_get sofa_id (sofas s) sid = Inr (Some old_sofa) \<and> distinct (map sofa_attr_key ds)
      \<longrightarrow>
        (\<forall>s' r. update_sofa s sid ds = Inr (s', r) \<longrightarrow>
            (\<forall>a \<in> set ds. getattr_sofa r (sofa_attr_key a) = Some a)
          \<and> (\<forall>k. k \<notin> sofa_attr_key ` set ds \<longrightarrow> getattr_sofa r k = getattr_sofa old_sofa k)
          \<and> (\<exists>k'. sofa_id r = Some k' \<and> read_sofa s' k' = Inr r))
       \<and> (''id'' \<notin> sofa_attr_key ` set ds
            \<and> list_all in_int64 (sofa_int_cols (fold setattr_sofa ds old_sofa))
          \<longrightarrow> (\<exists>s' r. update_sofa s sid ds = Inr (s', r))))
   \<and> (session_get table_id (dining_tables s) tid = Inr (Some old_table)
        \<and> distinct (map table_attr_key dt)
      \<longrightarrow>
        (\<forall>s' r. update_dining_table s tid dt = Inr (s', r) \<longrightarrow>
            (\<forall>a \<in> set dt. getattr_table r (table_attr_key a) = Some a)
          \<and> (\<forall>k. k \<notin> table_attr_key ` set dt \<longrightarrow> getattr_table r k = getattr_table old_table k)
          \<and> (\<exists>k'. table_id r = Some k' \<and> read_dining_table s' k' = Inr r))
       \<and> (''id'' \<notin> table_attr_key ` set dt
            \<and> list_all in_int64 (table_int_cols (fold setattr_table dt old_table))
          \<longrightarrow> (\<exists>s' r. update_dining_table s tid dt = Inr (s', r))))
   \<and> (session_get matress_id (matresses s) mid = Inr (Some old_matress)
        \<and> distinct (map matress_attr_key dm)
      \<longrightarrow>
        (\<forall>s' r. update_mattress s mid dm = Inr (s', r) \<longrightarrow>
            (\<forall>a \<in> set dm. getattr_matress r (matress_attr_key a) = Some a)
          \<and> (\<forall>k. k \<notin> matress_attr_key ` set dm \<longrightarrow>
                 getattr_matress r k = getattr_matress old_matress k)
          \<and> (\<exists>k'. matress_id r = Some k' \<and> read_mattress s' k' = Inr r))
       \<and> (''id'' \<notin> matress_attr_key ` set dm
            \<and> list_all in_int64 (matress_int_cols (fold setattr_matress dm old_matress))
          \<longrightarrow> (\<exists>s' r. update_mattress s mid dm = Inr (s', r))))"
  using update_sofa_patch[of s sid old_sofa ds]
    update_dining_table_patch[of s tid old_table dt]
    update_mattress_patch[of s mid old_matress dm]
  by blast

theorem update_changes_exactly_the_payload_fields_witness:
  "session_get sofa_id (sofas demo_store) 1 = Inr (Some demo_sofa)
   \<and> distinct (map sofa_attr_key [Sofa_common (Price 600)])
   \<and> update_sofa demo_store 1 [Sofa_common (Price 600)] =
       Inr (demo_store\<lparr>sofas := [demo_sofa\<lparr>price := 600\<rparr>]\<rparr>, demo_sofa\<lparr>price := 600\<rparr>)
   \<and> getattr_sofa (demo_sofa\<lparr>price := 600\<rparr>) ''price'' = Some (Sofa_common (Price 600))
   \<and> getattr_sofa (demo_sofa\<lparr>price := 600\<rparr>) ''name'' = getattr_sofa demo_sofa ''name''
   \<and> getattr_sofa (demo_sofa\<lparr>price := 600\<rparr>) ''seats'' = getattr_sofa demo_sofa ''seats''
   \<and> read_sofa (demo_store\<lparr>sofas := [demo_sofa\<lparr>price := 600\<rparr>]\<rparr>) 1
       = Inr (demo_sofa\<lparr>price := 600\<rparr>)"
proof -
  have u: "update_sofa demo_store 1 [Sofa_common (Price 600)] =
       Inr (demo_store\<lparr>sofas := [demo_sofa\<lparr>price := 600\<rparr>]\<rparr>, demo_sofa\<lparr>price := 600\<rparr>)"
    by (simp add: update_sofa_def session_update_def Let_def sofa_int_cols_def in_int64_def
        demo_sofa_def)
  have k: "''name'' \<notin> sofa_attr_key ` set [Sofa_common (Price 600)]"
    "''seats'' \<notin> sofa_attr_key ` set [Sofa_common (Price 600)]"
    by simp_all
  show ?thesis
    using update_changes_exactly_the_payload_fields[where s = demo_store and sid = 1
        and old_sofa = demo_sofa and ds = "[Sofa_common (Price 600)]"] u k
    by (simp add: read_sofa_def)
qed

subsection \<open>C7: create, then get\<close>

lemma session_add_new_key:
  assumes "pk obj = None" "list_all in_int64 (cols obj)" "in_int64 (next_rowid pk rows)"
    "\<And>k. pk (set_pk k obj) = Some k"
  shows "session_add pk set_pk cols rows obj =
           Inr (insert_row pk (next_rowid pk rows) (set_pk (next_rowid pk rows) obj) rows,
                set_pk (next_rowid pk rows) obj)"
    and "find_row pk (insert_row pk (next_rowid pk rows) (set_pk (next_rowid pk rows) obj) rows)
           (next_rowid pk rows) = Some (set_pk (next_rowid pk rows) obj)"
proof -
  show "session_add pk set_pk cols rows obj =
           Inr (insert_row pk (next_rowid pk rows) (set_pk (next_rowid pk rows) obj) rows,
                set_pk (next_rowid pk rows) obj)"
    using assms(1-3) by (simp add: session_add_def Let_def)
  have "\<forall>r \<in> set rows. pk r \<noteq> Some (next_rowid pk rows)"
    using next_rowid_fresh[of _ rows pk] by blast
  then show "find_row pk (insert_row pk (next_rowid pk rows)
      (set_pk (next_rowid pk rows) obj) rows) (next_rowid pk rows)
        = Some (set_pk (next_rowid pk rows) obj)"
    by (rule find_row_insert_row_new) (rule assms(4))
qed

lemma create_sofa_then_read:
  assumes "sofa_id sofa = None" "in_int64 (sofa_seats sofa)"
    "in_int64 (next_rowid sofa_id (sofas s))"
  shows "\<exists>s'. create_sofa s sofa =
            Inr (s', sofa\<lparr>sofa_id := Some (next_rowid sofa_id (sofas s))\<rparr>)
          \<and> read_sofa s' (next_rowid sofa_id (sofas s))
              = Inr (sofa\<lparr>sofa_id := Some (next_rowid sofa_id (sofas s))\<rparr>)"
  using session_add_new_key[of sofa_id sofa sofa_int_cols "sofas s"
      "\<lambda>k r. r\<lparr>sofa_id := Some k\<rparr>"] assms
  by (simp add: create_sofa_def read_sofa_def sofa_int_cols_def)

lemma create_dining_table_then_read:
  assumes "table_id table = None" "in_int64 (table_seats table)"
    "in_int64 (next_rowid table_id (dining_tables s))"
  shows "\<exists>s'. create_dining_table s table =
            Inr (s', table\<lparr>table_id := Some (next_rowid table_id (dining_tables s))\<rparr>)
          \<and> read_dining_table s' (next_rowid table_id (dining_tables s))
              = Inr (table\<lparr>table_id := Some (next_rowid table_id (dining_tables s))\<rparr>)"
  using session_add_new_key[of table_id table table_int_cols "dining_tables s"
      "\<lambda>k r. r\<lparr>table_id := Some k\<rparr>"] assms
  by (simp add: create_dining_table_def read_dining_table_def table_int_cols_def)

lemma create_mattress_then_read:
  assumes "matress_id mattress = None"
    "in_int64 (next_rowid matress_id (matresses s))"
  shows "\<exists>s'. create_mattress s mattress =
            Inr (s', mattress\<lparr>matress_id := Some (next_rowid matress_id (matresses s))\<rparr>)
          \<and> read_mattress s' (next_rowid matress_id (matresses s))
              = Inr (mattress\<lparr>matress_id := Some (next_rowid matress_id (matresses s))\<rparr>)"
  using session_add_new_key[of matress_id mattress matress_int_cols "matresses s"
      "\<lambda>k r. r\<lparr>matress_id := Some k\<rparr>"] assms
  by (simp add: create_mattress_def read_mattress_def matress_int_cols_def)

lemma date_added_default_is_import_day:
  "date_added (IkeaSofa_init import_day i n p c m w None st se sl fa) = import_day"
  "date_added (IkeaDiningTable_init import_day i n p c m w None st se sh ex) = import_day"
  "date_added (IkeaMatress_init import_day i n p c m w None st sz fi th) = import_day"
  "in_stock (IkeaSofa_init import_day i n p c m w d None se sl fa) = True"
  "in_stock (IkeaDiningTable_init import_day i n p c m w d None se sh ex) = True"
  "in_stock (IkeaMatress_init import_day i n p c m w d None sz fi th) = True"
  "created_date (ShoppingCart_init today ci None cn ce) = today"
  by (simp_all add: IkeaSofa_init_def IkeaDiningTable_init_def IkeaMatress_init_def
      ShoppingCart_init_def)

text \<open>
  C7: the claim has \<^verbatim>\<open>date_added\<close> default to the day of creation. The class body evaluates
  \<^verbatim>\<open>date.today()\<close> once, at import, so the default is the day the server process
  started. With the module imported on 2024-01-01, a sofa created on any later day
  without \<^verbatim>\<open>date_added\<close>, here 2024-03-05, is stored and read back with the id 1, with
  \<^verbatim>\<open>in_stock\<close> true, and with \<^verbatim>\<open>date_added\<close> 2024-01-01. A cart constructed on 2024-03-05
  does get that day as \<^verbatim>\<open>created_date\<close>: its default is a \<^verbatim>\<open>default_factory\<close>.
\<close>

theorem create_sofa_date_added_is_import_day:
  "create_sofa empty_store
      (IkeaSofa_init ''2024-01-01'' None ''KIVIK'' 500 ''Gray'' ''Leather'' 45 None None 3 None
         ''Velvet'')
     = Inr (empty_store\<lparr>sofas := [demo_sofa]\<rparr>, demo_sofa)
   \<and> read_sofa (empty_store\<lparr>sofas := [demo_sofa]\<rparr>) 1 = Inr demo_sofa
   \<and> sofa_id demo_sofa = Some 1
   \<and> in_stock demo_sofa = True
   \<and> date_added demo_sofa = ''2024-01-01''
   \<and> date_added demo_sofa \<noteq> ''2024-03-05''
   \<and> created_date (ShoppingCart_init ''2024-03-05'' None None ''John Doe'' None) = ''2024-03-05''"
  by (simp add: create_sofa_def session_add_def Let_def next_rowid_def IkeaSofa_init_def
      sofa_int_cols_def in_int64_def empty_store_def read_sofa_def demo_sofa_def
      ShoppingCart_init_def)

end
